theory Spec2Isabelle
  imports Complex_Main "HOL-Library.Word" "HOL-Library.Signed_Division" "HOL-Library.Log_Nat"
begin

unbundle bit_operations_syntax

section \<open>The built-in display of the SDM core (display_builtin.cpp)\<close>

text \<open>
  A shallow embedding of \<^verbatim>\<open>DisplayBuiltIn\<close>. The object is a record of the members the
  modelled methods read or write; a method is a function from the object to the object
  (and its return value). Calls into collaborators whose code is not part of the file
  (the hardware interface, the composition manager, the event handler, the panel-feature
  plugins, the base class) are appended to the member \<open>calls\<close>, in program order, when
  they command the collaborator to do something; a call that only asks for a value is not
  recorded. What a call returns is an argument of the method that makes it.

  Machine integers: \<^verbatim>\<open>uint32_t\<close> is \<open>32 word\<close>, \<^verbatim>\<open>uint64_t\<close> and \<^verbatim>\<open>unsigned long\<close>
  are \<open>64 word\<close>; a C \<^verbatim>\<open>int\<close> that only carries a property value or a status is \<open>int\<close>.
  The coordinates of a rectangle are \<^verbatim>\<open>float\<close>s that the file only copies and compares;
  they are held as \<open>real\<close>s. The brightness methods compute with \<^verbatim>\<open>float\<close>s; their
  arithmetic is the binary32 arithmetic of the next subsection.
\<close>

type_synonym u32 = "32 word"
type_synonym u64 = "64 word"

subsection \<open>Binary32 arithmetic\<close>

text \<open>
  A \<^verbatim>\<open>float\<close> is an IEEE 754 binary32 number: a finite value, an infinity (\<open>True\<close> for the
  negative one) or a NaN. The sign of a zero is not represented; no operation of the
  brightness methods depends on it (the divisor of their only division is the difference
  of two bounds of which the first compared greater than the second, so it is not a zero).
\<close>

datatype float32 = Finite real | Infinity bool | NaN

text \<open>
  \<open>pow2 k\<close> is \<open>2\<close> to the power \<open>k\<close>; \<open>ilog2 a\<close> is the exponent of the binade of a
  positive \<open>a\<close>, that is the integer \<open>k\<close> with \<open>pow2 k \<le> a < pow2 (k + 1)\<close>; \<open>rne\<close>
  rounds to the nearest integer, a tie to the even one.
\<close>

definition pow2 :: "int \<Rightarrow> real" where
  "pow2 k = (if 0 \<le> k then 2 ^ nat k else 1 / 2 ^ nat (- k))"

definition ilog2 :: "real \<Rightarrow> int" where
  "ilog2 a = (if 1 \<le> a then bitlen \<lfloor>a\<rfloor> - 1 else - bitlen (\<lceil>1 / a\<rceil> - 1))"

definition rne :: "real \<Rightarrow> int" where
  "rne x = (let f = \<lfloor>x\<rfloor>; d = x - of_int f
            in if d < 1/2 \<or> (d = 1/2 \<and> even f) then f else f + 1)"

text \<open>
  Rounding of a real number to binary32, to nearest with ties to even: 24 significant
  bits, the last of them never below \<open>pow2 (- 149)\<close> (subnormal numbers), and an infinity
  when the rounded magnitude reaches \<open>2 ^ 128\<close>. Every arithmetic operation on finite
  operands returns the rounding of the exact result.
\<close>

definition round32 :: "real \<Rightarrow> float32" where
  "round32 x =
     (if x = 0 then Finite 0
      else let e = max (ilog2 \<bar>x\<bar>) (- 126) - 23;
               y = of_int (rne (x / pow2 e)) * pow2 e
           in if 2 ^ 128 \<le> \<bar>y\<bar> then Infinity (x < 0) else Finite y)"

fun fneg :: "float32 \<Rightarrow> float32" where
  "fneg (Finite x) = Finite (- x)"
| "fneg (Infinity s) = Infinity (\<not> s)"
| "fneg NaN = NaN"

fun fadd :: "float32 \<Rightarrow> float32 \<Rightarrow> float32" where
  "fadd (Finite x) (Finite y) = round32 (x + y)"
| "fadd (Finite x) (Infinity s) = Infinity s"
| "fadd (Infinity s) (Finite y) = Infinity s"
| "fadd (Infinity s) (Infinity r) = (if s = r then Infinity s else NaN)"
| "fadd NaN b = NaN"
| "fadd a NaN = NaN"

definition fsub :: "float32 \<Rightarrow> float32 \<Rightarrow> float32" where
  "fsub a b = fadd a (fneg b)"

fun fmul :: "float32 \<Rightarrow> float32 \<Rightarrow> float32" where
  "fmul (Finite x) (Finite y) = round32 (x * y)"
| "fmul (Finite x) (Infinity s) = (if x = 0 then NaN else Infinity (s \<noteq> (x < 0)))"
| "fmul (Infinity s) (Finite y) = (if y = 0 then NaN else Infinity (s \<noteq> (y < 0)))"
| "fmul (Infinity s) (Infinity r) = Infinity (s \<noteq> r)"
| "fmul NaN b = NaN"
| "fmul a NaN = NaN"

fun fdiv :: "float32 \<Rightarrow> float32 \<Rightarrow> float32" where
  "fdiv (Finite x) (Finite y) =
     (if y = 0 then (if x = 0 then NaN else Infinity (x < 0)) else round32 (x / y))"
| "fdiv (Finite x) (Infinity s) = Finite 0"
| "fdiv (Infinity s) (Finite y) = Infinity (s \<noteq> (y < 0))"
| "fdiv (Infinity s) (Infinity r) = NaN"
| "fdiv NaN b = NaN"
| "fdiv a NaN = NaN"

text \<open>The comparisons \<^verbatim>\<open>==\<close>, \<^verbatim>\<open><=\<close> and \<^verbatim>\<open><\<close>; each is false when an operand is a NaN.\<close>

fun feq :: "float32 \<Rightarrow> float32 \<Rightarrow> bool" where
  "feq (Finite x) (Finite y) = (x = y)"
| "feq (Infinity s) (Infinity r) = (s = r)"
| "feq a b = False"

fun fle :: "float32 \<Rightarrow> float32 \<Rightarrow> bool" where
  "fle (Finite x) (Finite y) = (x \<le> y)"
| "fle (Finite x) (Infinity s) = (\<not> s)"
| "fle (Infinity s) (Finite y) = s"
| "fle (Infinity s) (Infinity r) = (s \<or> \<not> r)"
| "fle a b = False"

fun flt :: "float32 \<Rightarrow> float32 \<Rightarrow> bool" where
  "flt (Finite x) (Finite y) = (x < y)"
| "flt (Finite x) (Infinity s) = (\<not> s)"
| "flt (Infinity s) (Finite y) = s"
| "flt (Infinity s) (Infinity r) = (s \<and> \<not> r)"
| "flt a b = False"

text \<open>
  \<^verbatim>\<open>static_cast<int>\<close> of a \<^verbatim>\<open>float\<close> drops the fraction. The behaviour is undefined when
  the result is not a value of \<^verbatim>\<open>int\<close> (32 bits), and for an infinity or a NaN: \<open>None\<close>.
  The conversion of an \<^verbatim>\<open>int\<close> to \<^verbatim>\<open>float\<close> rounds.
\<close>

fun float_to_int :: "float32 \<Rightarrow> int option" where
  "float_to_int (Finite x) =
     (let n = (if 0 \<le> x then \<lfloor>x\<rfloor> else \<lceil>x\<rceil>)
      in if - (2 ^ 31) \<le> n \<and> n < 2 ^ 31 then Some n else None)"
| "float_to_int a = None"

definition int_to_float :: "int \<Rightarrow> float32" where
  "int_to_float n = round32 (of_int n)"

subsection \<open>Enumerations\<close>

text \<open>The \<^verbatim>\<open>DisplayError\<close> codes that display_builtin.cpp names.\<close>

datatype DisplayError =
    kErrorNone | kErrorUndefined | kErrorNotSupported | kErrorPermission
  | kErrorParameters | kErrorMemory | kErrorResources | kErrorHardware | kErrorTimeOut
  | kErrorNoAppLayers | kErrorNotValidated | kErrorDriverData | kErrorDeferred

datatype QSyncMode =
    kQSyncModeNone | kQSyncModeContinuous | kQsyncModeOneShot | kQsyncModeOneShotContinuous

datatype HWAVRModes = kQsyncNone | kContinuousMode | kOneShotMode

datatype HWDisplayMode = kModeDefault | kModeVideo | kModeCommand

datatype HWEvent =
    VSYNC | EXIT | SHOW_BLANK_EVENT | THERMAL_LEVEL | PINGPONG_TIMEOUT | PANEL_DEAD
  | HW_RECOVERY | HISTOGRAM | BACKLIGHT_EVENT | POWER_EVENT | MMRM | IDLE_NOTIFY
  | IDLE_POWER_COLLAPSE

datatype DisplayEvent = kIdleTimeout | kPostIdleTimeout | kPanelDeadEvent

datatype LayerComposition =
    kCompositionGPU | kCompositionSDE | kCompositionGPUTarget | kCompositionStitchTarget
  | kCompositionDemura

datatype LayerBlending = kBlendingPremultiplied | kBlendingSkip

datatype SamplingState = SamplingOff | SamplingOn

datatype HistModes = kHistDisabled | kHistEnabled

text \<open>The debug properties read by \<^verbatim>\<open>Init\<close>, \<^verbatim>\<open>SetupSPR\<close> and \<^verbatim>\<open>SetupDemura\<close>.\<close>

datatype property_name =
    DEFER_FPS_FRAME_COUNT | ENABLE_ROUNDED_CORNER | ENABLE_SPR | DISABLE_DEMURA_PRIMARY
  | DISABLE_DEMURA_SECONDARY | DISABLE_DYNAMIC_FPS | ENABLE_QSYNC_IDLE | ENHANCE_IDLE_TIME
  | ENABLE_DPPS_DYNAMIC_FPS | DISABLE_NOISE_LAYER

text \<open>A \<^verbatim>\<open>std::vector::at\<close> outside the vector throws; nothing in the file catches it.\<close>

datatype exn = out_of_range

subsection \<open>Calls into collaborators\<close>

datatype call =
    Refresh
  | HandleEvent DisplayEvent
  | SetEventState HWEvent bool
  | HW_SetRefreshRate u32
  | HW_SetPanelBrightness int
  | HW_SetDisplayMode HWDisplayMode
  | HW_EnableSelfRefresh
  | Comp_CheckEnforceSplit u32
  | Comp_ProcessIdleTimeout
  | Comp_ReconfigureDisplay
  | Comp_GenerateROI
  | Comp_FreeDemuraFetchResources
  | Comp_SetDemuraStatusForDisplay bool
  | HWInterface_Create
  | HWInterface_Destroy
  | DisplayBase_Init
  | DisplayBase_Deinit
  | DisplayBase_NoiseInit
  | HWEventsInterface_Create "HWEvent list"
  | ColorMgrGetStcModes
  | CreateSPRIntf
  | SPR_Init
  | CreateDemuraIntf "nat list"
  | Demura_Init
  | Demura_GetParameter_CorrectionBuffer
  | Demura_SetParameter_Active bool
  | DppsNotify_UpdateFps u32

subsection \<open>Structures\<close>

record LayerRect =
  rect_left :: real
  rect_top :: real
  rect_right :: real
  rect_bottom :: real

text \<open>
  The members of \<^verbatim>\<open>HWPanelInfo\<close> that display_builtin.cpp reads. The structure is
  declared outside the file; \<open>panel_other\<close> stands for the members the file never names.
  The two brightness bounds are held as the \<^verbatim>\<open>float\<close> values that the brightness methods
  read from them (lines 791-792 and 1032-1033).
\<close>

record HWPanelInfo =
  mode :: HWDisplayMode
  qsync_support :: bool
  dynamic_fps :: bool
  min_fps :: u32
  max_fps :: u32
  partial_update :: bool
  left_roi_count :: u32
  panel_min_brightness :: float32
  panel_max_brightness :: float32
  transfer_time_us :: u32
  is_primary_panel :: bool
  panel_name :: string
  panel_other :: nat

record HWDisplayAttributes =
  fps :: u32
  vsync_period_ns :: u32
  x_pixels :: u32
  y_pixels :: u32
  attr_other :: nat

record HWMixerAttributes =
  mixer_width :: u32
  mixer_height :: u32
  mixer_other :: nat

record HWAVRInfo =
  avr_update :: bool
  avr_mode :: HWAVRModes

text \<open>
  A \<^verbatim>\<open>Layer\<close>: the update mask is a \<^verbatim>\<open>std::bitset\<close>, read through \<^verbatim>\<open>to_ulong()\<close>.
\<close>

record Layer =
  update_mask :: u64
  dirty_regions :: "LayerRect list"
  composition :: LayerComposition

record LayerStackFlags =
  geometry_changed :: bool
  skip_present :: bool
  stitch_present :: bool
  demura_present :: bool

record LayerStack =
  layers :: "Layer list"
  flags :: LayerStackFlags
  stack_needs_validate :: bool

text \<open>\<^verbatim>\<open>disp_layer_stack_.info\<close>, the per-frame result of composition planning.\<close>

record HWLayersInfo =
  app_layer_count :: u32
  left_frame_roi :: "LayerRect list"
  right_frame_roi :: "LayerRect list"
  dest_scale_info_map :: "(u32 \<times> nat) list"
  hw_layers :: "Layer list"
  index :: "u32 list"
  noise_present :: bool
  hw_avr_info :: HWAVRInfo

text \<open>
  \<^verbatim>\<open>deferred_config_\<close>. The file reads and writes the four members below directly; the
  structure's methods are declared in the header, outside the file, and reach the model
  as arguments (see \<open>DeferFpsOps\<close>). \<open>defer_other\<close> stands for the rest of the structure
  (its countdown and flags).
\<close>

record DeferFpsConfig =
  frame_count :: u32
  defer_fps :: u32
  defer_vsync_period_ns :: u32
  defer_transfer_time_us :: u32
  defer_other :: nat

record timespec =
  tv_sec :: int
  tv_nsec :: int

text \<open>The Demura layer that \<^verbatim>\<open>SetupDemuraLayer\<close> fills from the plugin's buffer.\<close>

record BufferInfo =
  alloc_size :: u32
  alloc_id :: u64
  alloc_format :: nat
  alloc_aligned_width :: u32
  alloc_aligned_height :: u32
  alloc_fd :: int
  alloc_stride :: u32
  config_width :: u32
  config_height :: u32

record DemuraLayer =
  buf_size :: u32
  buf_id :: u64
  buf_format :: nat
  buf_width :: u32
  buf_unaligned_width :: u32
  buf_height :: u32
  buf_unaligned_height :: u32
  plane0_fd :: int
  plane0_stride :: u32
  plane0_offset :: u32
  buf_flag_demura :: bool
  demura_composition :: LayerComposition
  demura_blending :: LayerBlending
  flag_is_demura :: bool
  src_rect :: LayerRect
  dst_rect :: LayerRect
  buffer_map_set :: bool

subsection \<open>The object\<close>

text \<open>
  The members of \<^verbatim>\<open>DisplayBuiltIn\<close> (its own and those inherited from \<^verbatim>\<open>DisplayBase\<close>) that
  the modelled methods use, under their source names without the trailing underscore.
  A pointer member is the boolean "is not null".
\<close>

record DisplayBuiltIn =
  calls :: "call list"
  display_id :: int
  hw_intf :: bool
  hw_events_intf :: bool
  color_mgr :: bool
  pf_factory :: bool
  prop_intf :: bool
  spr :: bool
  demura :: bool
  hw_panel_info :: HWPanelInfo
  display_attributes :: HWDisplayAttributes
  mixer_attributes :: HWMixerAttributes
  info :: HWLayersInfo
  active :: bool
  validated :: bool
  needs_validate :: bool
  first_cycle :: bool
  vsync_enable :: bool
  pending_vsync_enable :: bool
  partial_update_control :: bool
  disable_pu_one_frame :: bool
  disable_pu_on_dest_scaler :: bool
  handle_idle_timeout :: bool
  enable_qsync_idle :: bool
  enhance_idle_time :: bool
  disable_dyn_fps :: bool
  enable_dpps_dyn_fps :: bool
  noise_disable_prop :: bool
  avr_prop_disabled :: bool
  rc_enable_prop :: bool
  qsync_mode :: QSyncMode
  active_qsync_mode :: QSyncMode
  needs_avr_update :: bool
  current_refresh_rate :: u32
  deferred_config :: DeferFpsConfig
  default_clock_hz :: u64
  idle_timer_start :: timespec
  idle_time_ms :: u32
  level_remainder :: float32
  cached_brightness :: float32
  pending_brightness :: bool
  cached_left_frame_roi :: LayerRect
  cached_right_frame_roi :: LayerRect
  event_list :: "HWEvent list"
  samplingState :: SamplingState
  histogramCtrl :: HistModes
  histogramIRQ :: HistModes
  histogramSetup :: bool
  demura_layer :: DemuraLayer
  demura_intended :: bool
  dpps_intf :: bool

subsection \<open>Adaptive sync (qsync)\<close>

text \<open>\<^verbatim>\<open>GetAvrMode\<close> (lines 332-344).\<close>

fun GetAvrMode :: "QSyncMode \<Rightarrow> HWAVRModes" where
  "GetAvrMode kQSyncModeNone = kQsyncNone"
| "GetAvrMode kQSyncModeContinuous = kContinuousMode"
| "GetAvrMode kQsyncModeOneShot = kOneShotMode"
| "GetAvrMode kQsyncModeOneShotContinuous = kOneShotMode"

text \<open>
  \<^verbatim>\<open>UpdateQsyncMode\<close> (lines 307-330): nothing happens on a panel without qsync support or
  in command mode; otherwise the mode of the frame is \<open>Continuous\<close> while idling with
  qsync-on-idle enabled, and the client's mode otherwise; it becomes the active mode.
\<close>

definition UpdateQsyncMode :: "DisplayBuiltIn \<Rightarrow> DisplayBuiltIn" where
  "UpdateQsyncMode s =
     (if \<not> qsync_support (hw_panel_info s) \<or> mode (hw_panel_info s) = kModeCommand then s
      else
        let m = (if handle_idle_timeout s \<and> enable_qsync_idle s then kQSyncModeContinuous
                 else qsync_mode s)
        in s\<lparr>info := (info s)\<lparr>hw_avr_info :=
                 \<lparr>avr_update = (m \<noteq> active_qsync_mode s) \<or> needs_avr_update s,
                  avr_mode = GetAvrMode m\<rparr>\<rparr>,
              active_qsync_mode := m\<rparr>)"

text \<open>\<^verbatim>\<open>GetQSyncMode\<close> (lines 1596-1599).\<close>

definition GetQSyncMode :: "DisplayBuiltIn \<Rightarrow> DisplayError \<times> QSyncMode" where
  "GetQSyncMode s = (kErrorNone, active_qsync_mode s)"

text \<open>\<^verbatim>\<open>SetQSyncMode\<close> (lines 1601-1622).\<close>

definition SetQSyncMode :: "QSyncMode \<Rightarrow> DisplayBuiltIn \<Rightarrow> DisplayError \<times> DisplayBuiltIn" where
  "SetQSyncMode m s =
     (if \<not> qsync_support (hw_panel_info s) \<or> first_cycle s then (kErrorNotSupported, s)
      else if qsync_mode s = m then (kErrorNone, s)
      else (kErrorNone,
            s\<lparr>qsync_mode := m, needs_avr_update := True, validated := False,
              calls := calls s @ [Refresh]\<rparr>))"

text \<open>\<^verbatim>\<open>SetVsyncStatus\<close> (lines 916-928).\<close>

definition SetVsyncStatus :: "bool \<Rightarrow> DisplayBuiltIn \<Rightarrow> DisplayBuiltIn" where
  "SetVsyncStatus enable s =
     (if enable
      then s\<lparr>calls := calls s @ [SetEventState VSYNC (vsync_enable s)],
             pending_vsync_enable := False\<rparr>
      else s\<lparr>calls := calls s @ [SetEventState VSYNC False],
             pending_vsync_enable := True\<rparr>)"

text \<open>
  \<^verbatim>\<open>HandleQsyncPostCommit\<close> (lines 639-658), in two parts: the branch on the client's
  mode, and what follows it for every mode (vsync is re-enabled, and the post-idle event
  is sent when the frame ran under the idle override).
\<close>

definition qsync_mode_branch :: "DisplayBuiltIn \<Rightarrow> DisplayBuiltIn" where
  "qsync_mode_branch s =
     (if qsync_mode s = kQsyncModeOneShot then snd (SetQSyncMode kQSyncModeNone s)
      else if qsync_mode s = kQsyncModeOneShotContinuous then s
      else if qsync_mode s = kQSyncModeContinuous then s\<lparr>needs_avr_update := False\<rparr>
      else if qsync_mode s = kQSyncModeNone then s\<lparr>needs_avr_update := False\<rparr>
      else s)"

definition qsync_post_branch :: "DisplayBuiltIn \<Rightarrow> DisplayBuiltIn" where
  "qsync_post_branch s =
     (let s1 = SetVsyncStatus True s;
          notify_idle = (enable_qsync_idle s1 \<and> active_qsync_mode s1 \<noteq> kQSyncModeNone
                         \<and> handle_idle_timeout s1)
      in if notify_idle then s1\<lparr>calls := calls s1 @ [HandleEvent kPostIdleTimeout]\<rparr> else s1)"

definition HandleQsyncPostCommit :: "DisplayBuiltIn \<Rightarrow> DisplayBuiltIn" where
  "HandleQsyncPostCommit s = qsync_post_branch (qsync_mode_branch s)"

text \<open>
  \<^verbatim>\<open>IdleTimeout\<close> (lines 930-944); \<open>handled\<close> is what the event handler returns for
  \<^verbatim>\<open>kIdleTimeout\<close>.
\<close>

definition IdleTimeout :: "DisplayError \<Rightarrow> DisplayBuiltIn \<Rightarrow> DisplayBuiltIn" where
  "IdleTimeout handled s =
     (if mode (hw_panel_info s) = kModeVideo then
        (if handled \<noteq> kErrorNone then s\<lparr>calls := calls s @ [HandleEvent kIdleTimeout]\<rparr>
         else s\<lparr>handle_idle_timeout := True,
                calls := calls s @ [HandleEvent kIdleTimeout, Refresh, HW_EnableSelfRefresh]
                         @ (if \<not> enhance_idle_time s then [Comp_ProcessIdleTimeout] else [])
                         @ [HW_EnableSelfRefresh]\<rparr>)
      else s)"

text \<open>
  The last statements of \<^verbatim>\<open>PostCommit\<close> (lines 632-636): the qsync bookkeeping, then the
  idle flag is cleared.
\<close>

definition PostCommit_tail :: "DisplayBuiltIn \<Rightarrow> DisplayBuiltIn" where
  "PostCommit_tail s = (HandleQsyncPostCommit s)\<lparr>handle_idle_timeout := False\<rparr>"

subsection \<open>Refresh rate\<close>

text \<open>
  The methods of \<^verbatim>\<open>deferred_config_\<close> that the file calls. Their bodies are in the header,
  outside the file, so they are arguments of the methods that call them.
\<close>

record DeferFpsOps =
  IsDirty :: "DeferFpsConfig \<Rightarrow> bool"
  IsDeferredState :: "DeferFpsConfig \<Rightarrow> bool"
  CanApplyDeferredState :: "DeferFpsConfig \<Rightarrow> bool"
  MarkDirty :: "DeferFpsConfig \<Rightarrow> DeferFpsConfig"
  Clear :: "DeferFpsConfig \<Rightarrow> DeferFpsConfig"
  DeferInit :: "u32 \<Rightarrow> u32 \<Rightarrow> u32 \<Rightarrow> DeferFpsConfig \<Rightarrow> DeferFpsConfig"

text \<open>
  What the collaborators answer during \<^verbatim>\<open>SetRefreshRate\<close> and \<^verbatim>\<open>ReconfigureDisplay\<close>:
  the clock, the hardware interface, the composition manager, the comparison operators
  of the three attribute structures, \<^verbatim>\<open>OnlyFpsChanged\<close>, and the value that the base
  class's \<^verbatim>\<open>SetPUonDestScaler\<close> gives \<^verbatim>\<open>disable_pu_on_dest_scaler_\<close>.
\<close>

record RefreshEnv =
  clock_now :: timespec
  hw_SetRefreshRate :: "u32 \<Rightarrow> DisplayError"
  comp_CheckEnforceSplit :: "u32 \<Rightarrow> DisplayError"
  hw_GetActiveConfig :: "DisplayError \<times> u32"
  hw_GetDisplayAttributes :: "u32 \<Rightarrow> DisplayError \<times> HWDisplayAttributes"
  hw_GetMixerAttributes :: "DisplayError \<times> HWMixerAttributes"
  hw_GetHWPanelInfo :: "DisplayError \<times> HWPanelInfo"
  comp_ReconfigureDisplay ::
    "HWDisplayAttributes \<Rightarrow> HWPanelInfo \<Rightarrow> HWMixerAttributes \<Rightarrow> DisplayError \<times> u64"
  attributes_equal :: "HWDisplayAttributes \<Rightarrow> HWDisplayAttributes \<Rightarrow> bool"
  mixer_equal :: "HWMixerAttributes \<Rightarrow> HWMixerAttributes \<Rightarrow> bool"
  panel_equal :: "HWPanelInfo \<Rightarrow> HWPanelInfo \<Rightarrow> bool"
  OnlyFpsChanged :: "HWDisplayAttributes \<Rightarrow> HWDisplayAttributes \<Rightarrow> bool"
  pu_on_dest_scaler :: bool

text \<open>\<^verbatim>\<open>GetTimeInMs\<close> (lines 64-66); the result is converted to \<^verbatim>\<open>uint64_t\<close>.\<close>

definition GetTimeInMs :: "timespec \<Rightarrow> u64" where
  "GetTimeInMs ts = word_of_int (tv_sec ts * 1000 + (tv_nsec ts + 500000) sdiv 1000000)"

text \<open>\<^verbatim>\<open>CanLowerFps\<close> (lines 879-895); \<open>now\<close> is what \<^verbatim>\<open>clock_gettime\<close> reads.\<close>

definition CanLowerFps :: "timespec \<Rightarrow> bool \<Rightarrow> DisplayBuiltIn \<Rightarrow> bool" where
  "CanLowerFps now idle_screen s =
     (if \<not> enhance_idle_time s then handle_idle_timeout s
      else if \<not> handle_idle_timeout s \<or> \<not> idle_screen then False
      else
        let elapsed_time_ms = GetTimeInMs now - GetTimeInMs (idle_timer_start s)
        in ucast (idle_time_ms s) \<le> elapsed_time_ms)"

text \<open>\<^verbatim>\<open>DisablePartialUpdateOneFrameInternal\<close> (lines 1104-1108).\<close>

definition DisablePartialUpdateOneFrameInternal :: "DisplayBuiltIn \<Rightarrow> DisplayBuiltIn" where
  "DisablePartialUpdateOneFrameInternal s = s\<lparr>disable_pu_one_frame := True\<rparr>"

text \<open>\<^verbatim>\<open>SetDeferredFpsConfig\<close> (lines 2035-2041).\<close>

definition SetDeferredFpsConfig :: "DeferFpsOps \<Rightarrow> DisplayBuiltIn \<Rightarrow> DisplayBuiltIn" where
  "SetDeferredFpsConfig ops s =
     s\<lparr>display_attributes := (display_attributes s)
          \<lparr>fps := defer_fps (deferred_config s),
           vsync_period_ns := defer_vsync_period_ns (deferred_config s)\<rparr>,
       hw_panel_info := (hw_panel_info s)
          \<lparr>transfer_time_us := defer_transfer_time_us (deferred_config s)\<rparr>,
       deferred_config := Clear ops (deferred_config s)\<rparr>"

text \<open>\<^verbatim>\<open>GetFpsConfig\<close> (lines 2043-2047), returning the two structures it writes.\<close>

definition GetFpsConfig ::
  "DisplayBuiltIn \<Rightarrow> HWDisplayAttributes \<Rightarrow> HWPanelInfo \<Rightarrow> HWDisplayAttributes \<times> HWPanelInfo" where
  "GetFpsConfig s display_attr panel_info =
     (display_attr\<lparr>fps := fps (display_attributes s),
                   vsync_period_ns := vsync_period_ns (display_attributes s)\<rparr>,
      panel_info\<lparr>transfer_time_us := transfer_time_us (hw_panel_info s)\<rparr>)"

text \<open>\<^verbatim>\<open>CanDeferFpsConfig\<close> (lines 2024-2033).\<close>

definition CanDeferFpsConfig :: "DeferFpsOps \<Rightarrow> u32 \<Rightarrow> DisplayBuiltIn \<Rightarrow> bool" where
  "CanDeferFpsConfig ops new_fps s =
     (if CanApplyDeferredState ops (deferred_config s) then False
      else frame_count (deferred_config s) \<noteq> 0 \<and> new_fps < fps (display_attributes s))"

text \<open>\<^verbatim>\<open>DppsInfo::DppsNotifyOps\<close> (lines 1585-1594), for the fps update.\<close>

definition DppsNotifyOps_UpdateFps :: "u32 \<Rightarrow> DisplayBuiltIn \<Rightarrow> DisplayBuiltIn" where
  "DppsNotifyOps_UpdateFps dpps_fps s =
     (if \<not> dpps_intf s then s else s\<lparr>calls := calls s @ [DppsNotify_UpdateFps dpps_fps]\<rparr>)"

text \<open>
  \<^verbatim>\<open>ReconfigureDisplay\<close> (lines 1930-2022). \<open>reconfigure_changed\<close> is the part after the
  early return for an unchanged configuration (lines 1976-2021); \<open>reconfigure_compare\<close>
  is lines 1959-1974, with the attributes that the hardware reported.
\<close>

definition reconfigure_changed ::
  "DeferFpsOps \<Rightarrow> RefreshEnv \<Rightarrow> bool \<Rightarrow> bool \<Rightarrow> HWDisplayAttributes \<Rightarrow> HWMixerAttributes \<Rightarrow>
   HWPanelInfo \<Rightarrow> DisplayBuiltIn \<Rightarrow> DisplayError \<times> DisplayBuiltIn" where
  "reconfigure_changed ops env mixer_unchanged panel_unchanged da ma pinfo s =
     (let (s1, da1, pinfo1) =
            (if CanDeferFpsConfig ops (fps da) s
             then (s\<lparr>deferred_config :=
                       DeferInit ops (fps da) (vsync_period_ns da) (transfer_time_us pinfo)
                         (deferred_config s)\<rparr>,
                   GetFpsConfig s da pinfo)
             else (s, da, pinfo));
          (error, clock_hz) = comp_ReconfigureDisplay env da1 pinfo1 ma;
          s2 = s1\<lparr>calls := calls s1 @ [Comp_ReconfigureDisplay]\<rparr>
      in if error \<noteq> kErrorNone then (error, s2)
         else
           let s3 = s2\<lparr>default_clock_hz := clock_hz\<rparr>;
               disble_pu = (if mixer_unchanged \<and> panel_unchanged
                            then \<not> OnlyFpsChanged env (display_attributes s3) da1 else True);
               s4 = (if disble_pu then DisablePartialUpdateOneFrameInternal s3 else s3);
               s5 = s4\<lparr>display_attributes := da1, mixer_attributes := ma,
                       hw_panel_info := pinfo1\<rparr>;
               s6 = s5\<lparr>disable_pu_on_dest_scaler := pu_on_dest_scaler env\<rparr>;
               s7 = (if enable_dpps_dyn_fps s6
                     then DppsNotifyOps_UpdateFps (fps (display_attributes s6)) s6 else s6)
           in (kErrorNone, s7))"

definition reconfigure_compare ::
  "DeferFpsOps \<Rightarrow> RefreshEnv \<Rightarrow> HWDisplayAttributes \<Rightarrow> HWMixerAttributes \<Rightarrow> HWPanelInfo \<Rightarrow>
   DisplayBuiltIn \<Rightarrow> DisplayError \<times> DisplayBuiltIn" where
  "reconfigure_compare ops env da ma pinfo s =
     (let dirty = IsDirty ops (deferred_config s);
          (s1, da1, pinfo1) =
            (if IsDeferredState ops (deferred_config s)
             then (if dirty then (SetDeferredFpsConfig ops s, da, pinfo)
                   else (s, GetFpsConfig s da pinfo))
             else (s, da, pinfo));
          display_unchanged = attributes_equal env da1 (display_attributes s1);
          mixer_unchanged = mixer_equal env ma (mixer_attributes s1);
          panel_unchanged = panel_equal env pinfo1 (hw_panel_info s1)
      in if \<not> dirty \<and> display_unchanged \<and> mixer_unchanged \<and> panel_unchanged
         then (kErrorNone, s1)
         else reconfigure_changed ops env mixer_unchanged panel_unchanged da1 ma pinfo1 s1)"

definition ReconfigureDisplay ::
  "DeferFpsOps \<Rightarrow> RefreshEnv \<Rightarrow> DisplayBuiltIn \<Rightarrow> DisplayError \<times> DisplayBuiltIn" where
  "ReconfigureDisplay ops env s =
     (let (e1, active_index) = hw_GetActiveConfig env in
      if e1 \<noteq> kErrorNone then (e1, s)
      else
        let (e2, da) = hw_GetDisplayAttributes env active_index in
        if e2 \<noteq> kErrorNone then (e2, s)
        else
          let (e3, ma) = hw_GetMixerAttributes env in
          if e3 \<noteq> kErrorNone then (e3, s)
          else
            let (e4, pinfo) = hw_GetHWPanelInfo env in
            if e4 \<noteq> kErrorNone then (e4, s)
            else reconfigure_compare ops env da ma pinfo s)"

text \<open>
  \<^verbatim>\<open>SetRefreshRate\<close> (lines 834-877). \<open>refresh_rate_commit\<close> is lines 867-876, which run
  whether or not the hardware was asked to change the rate.
\<close>

definition refresh_rate_commit ::
  "DeferFpsOps \<Rightarrow> RefreshEnv \<Rightarrow> u32 \<Rightarrow> DisplayBuiltIn \<Rightarrow> DisplayError \<times> DisplayBuiltIn" where
  "refresh_rate_commit ops env refresh_rate s =
     (let s1 = (if enhance_idle_time s \<and> handle_idle_timeout s
                   \<and> refresh_rate = min_fps (hw_panel_info s)
                then s\<lparr>calls := calls s @ [Comp_ProcessIdleTimeout]\<rparr> else s);
          s2 = s1\<lparr>current_refresh_rate := refresh_rate,
                  deferred_config := MarkDirty ops (deferred_config s1)\<rparr>
      in ReconfigureDisplay ops env s2)"

text \<open>Lines 848-850: the rate is lowered to the panel's minimum while the screen idles.\<close>

definition lowered_rate :: "RefreshEnv \<Rightarrow> u32 \<Rightarrow> bool \<Rightarrow> bool \<Rightarrow> DisplayBuiltIn \<Rightarrow> u32" where
  "lowered_rate env requested final_rate idle_screen s =
     (if CanLowerFps (clock_now env) idle_screen s \<and> \<not> final_rate \<and> \<not> enable_qsync_idle s
      then min_fps (hw_panel_info s) else requested)"

definition SetRefreshRate ::
  "DeferFpsOps \<Rightarrow> RefreshEnv \<Rightarrow> u32 \<Rightarrow> bool \<Rightarrow> bool \<Rightarrow> DisplayBuiltIn \<Rightarrow>
   DisplayError \<times> DisplayBuiltIn" where
  "SetRefreshRate ops env requested final_rate idle_screen s =
     (if \<not> active s \<or> \<not> dynamic_fps (hw_panel_info s) \<or> qsync_mode s \<noteq> kQSyncModeNone
         \<or> disable_dyn_fps s
      then (kErrorNotSupported, s)
      else if requested < min_fps (hw_panel_info s) \<or> max_fps (hw_panel_info s) < requested
      then (kErrorParameters, s)
      else
        let refresh_rate = lowered_rate env requested final_rate idle_screen s
        in if current_refresh_rate s \<noteq> refresh_rate then
             (let s1 = s\<lparr>calls := calls s @ [HW_SetRefreshRate refresh_rate]\<rparr> in
              if hw_SetRefreshRate env refresh_rate \<noteq> kErrorNone
              then (hw_SetRefreshRate env refresh_rate, s1\<lparr>handle_idle_timeout := False\<rparr>)
              else
                let s2 = s1\<lparr>calls := calls s1 @ [Comp_CheckEnforceSplit refresh_rate]\<rparr> in
                if comp_CheckEnforceSplit env refresh_rate \<noteq> kErrorNone
                then (comp_CheckEnforceSplit env refresh_rate, s2)
                else refresh_rate_commit ops env refresh_rate s2)
           else refresh_rate_commit ops env refresh_rate s)"

text \<open>\<^verbatim>\<open>GetRefreshRate\<close> (lines 1717-1720).\<close>

definition GetRefreshRate :: "DisplayBuiltIn \<Rightarrow> DisplayError \<times> u32" where
  "GetRefreshRate s = (kErrorNone, current_refresh_rate s)"

text \<open>
  The commands of a call list that change the device's refresh rate or re-check the
  split configuration for it (lines 853 and 861).
\<close>

fun is_rate_command :: "call \<Rightarrow> bool" where
  "is_rate_command (HW_SetRefreshRate r) = True"
| "is_rate_command (Comp_CheckEnforceSplit r) = True"
| "is_rate_command c = False"

definition rate_commands :: "call list \<Rightarrow> call list" where
  "rate_commands cs = filter is_rate_command cs"

text \<open>A panel with dynamic refresh rate between \<open>lo\<close> and \<open>hi\<close> fps.\<close>

definition supports_rates :: "HWPanelInfo \<Rightarrow> u32 \<Rightarrow> u32 \<Rightarrow> bool" where
  "supports_rates panel lo hi \<longleftrightarrow>
     dynamic_fps panel \<and> min_fps panel = lo \<and> max_fps panel = hi"

text \<open>
  Of \<^verbatim>\<open>PostCommit\<close> (lines 567-637), the statements of the file that write the panel
  information, the client's qsync mode or the idle flag: \<^verbatim>\<open>ReconfigureDisplay\<close> at line
  592, whose result is dropped, and the last statements (lines 632-634).
\<close>

definition PostCommit_qsync :: "DeferFpsOps \<Rightarrow> RefreshEnv \<Rightarrow> DisplayBuiltIn \<Rightarrow> DisplayBuiltIn" where
  "PostCommit_qsync ops env s = PostCommit_tail (snd (ReconfigureDisplay ops env s))"

subsection \<open>Panel brightness\<close>

text \<open>
  Lines 797-799 of \<^verbatim>\<open>SetPanelBrightness\<close>: the level and the remainder for a brightness
  between 0 and 1, each operation rounded to binary32; \<open>None\<close> when the conversion of
  \<open>t\<close> to \<^verbatim>\<open>int\<close> is undefined.
\<close>

definition brightness_level :: "float32 \<Rightarrow> float32 \<Rightarrow> float32 \<Rightarrow> (int \<times> float32) option" where
  "brightness_level brightness pmax pmin =
     (let t = fadd (fmul brightness (fsub pmax pmin)) pmin
      in case float_to_int t of
           None \<Rightarrow> None
         | Some level \<Rightarrow> Some (level, fsub t (int_to_float level)))"

text \<open>
  \<^verbatim>\<open>SetPanelBrightness\<close> (lines 776-817); \<open>hw_result\<close> is what the hardware interface
  returns for the level. The result is \<open>None\<close> when the behaviour is undefined.
\<close>

definition SetPanelBrightness ::
  "(int \<Rightarrow> DisplayError) \<Rightarrow> float32 \<Rightarrow> DisplayBuiltIn \<Rightarrow> (DisplayError \<times> DisplayBuiltIn) option"
  where
  "SetPanelBrightness hw_result brightness s =
     (if \<not> feq brightness (Finite (- 1))
         \<and> \<not> (fle (Finite 0) brightness \<and> fle brightness (Finite 1))
      then Some (kErrorParameters, s)
      else if \<not> feq brightness (Finite (- 1))
              \<and> fle (panel_max_brightness (hw_panel_info s))
                    (panel_min_brightness (hw_panel_info s))
      then Some (kErrorDriverData, s)
      else
        case (if feq brightness (Finite (- 1)) then Some (0, Finite 0)
              else brightness_level brightness (panel_max_brightness (hw_panel_info s))
                     (panel_min_brightness (hw_panel_info s))) of
          None \<Rightarrow> None
        | Some (level, remainder) \<Rightarrow>
            let err = hw_result level;
                s1 = s\<lparr>calls := calls s @ [HW_SetPanelBrightness level]\<rparr>
            in if err = kErrorNone then Some (kErrorNone, s1\<lparr>level_remainder := remainder\<rparr>)
               else if err = kErrorDeferred
               then Some (kErrorNone,
                          s1\<lparr>cached_brightness := brightness, pending_brightness := True\<rparr>)
               else Some (err, s1))"

text \<open>
  \<^verbatim>\<open>GetPanelBrightnessFromLevel\<close> (lines 1030-1047): the brightness written through the
  pointer on success, the error otherwise.
\<close>

definition GetPanelBrightnessFromLevel ::
  "float32 \<Rightarrow> DisplayBuiltIn \<Rightarrow> DisplayError + float32" where
  "GetPanelBrightnessFromLevel level s =
     (let pmax = panel_max_brightness (hw_panel_info s);
          pmin = panel_min_brightness (hw_panel_info s)
      in if feq level (Finite 0) then Inr (Finite (- 1))
         else if flt pmin pmax \<and> (fle pmin level \<and> fle level pmax)
         then Inr (fdiv (fsub (fadd level (level_remainder s)) pmin) (fsub pmax pmin))
         else Inl kErrorDriverData)"

text \<open>
  \<^verbatim>\<open>GetPanelBrightness\<close> (lines 1019-1028); \<open>hw_level\<close> is what the hardware interface
  returns. The \<^verbatim>\<open>int\<close> level is converted to the \<^verbatim>\<open>float\<close> parameter.
\<close>

definition GetPanelBrightness ::
  "DisplayError \<times> int \<Rightarrow> DisplayBuiltIn \<Rightarrow> DisplayError + float32" where
  "GetPanelBrightness hw_level s =
     (if fst hw_level \<noteq> kErrorNone then Inl (fst hw_level)
      else GetPanelBrightnessFromLevel (int_to_float (snd hw_level)) s)"

subsection \<open>The Prepare fast path\<close>

text \<open>
  What the collaborators answer during \<^verbatim>\<open>CanSkipDisplayPrepare\<close>: the composition
  manager's safe mode and the region of interest it generates (as a function on
  \<^verbatim>\<open>disp_layer_stack_.info\<close>), the colour manager's request to disable partial update,
  and \<^verbatim>\<open>IsCongruent\<close> of utils/rect.h. \<open>kSurfaceDamage\<close> is the position of the
  surface-damage bit in a layer's update mask, an enumerator declared outside the file.
\<close>

record FrameEnv =
  comp_IsSafeMode :: bool
  color_NeedsPartialUpdateDisable :: bool
  kSurfaceDamage :: nat
  comp_GenerateROI :: "HWLayersInfo \<Rightarrow> HWLayersInfo"
  IsCongruent :: "LayerRect \<Rightarrow> LayerRect \<Rightarrow> bool"

text \<open>
  The loop over the update masks (lines 1763-1778): \<open>damage\<close> is the loop's variable
  \<^verbatim>\<open>surface_damage\<close>, and a mask with any bit other than the surface-damage bit ends
  the loop with \<open>False\<close>.
\<close>

fun surface_damage_scan :: "u32 \<Rightarrow> bool \<Rightarrow> Layer list \<Rightarrow> bool" where
  "surface_damage_scan mask_value damage [] = damage"
| "surface_damage_scan mask_value damage (layer # rest) =
     (if update_mask layer = 0 then surface_damage_scan mask_value damage rest
      else if update_mask layer = ucast mask_value
      then surface_damage_scan mask_value True rest
      else False)"

definition stack_fudge_factor :: "LayerStack \<Rightarrow> nat" where
  "stack_fudge_factor ls =
     1 + (if stitch_present (flags ls) then 1 else 0)
       + (if demura_present (flags ls) then 1 else 0)"

text \<open>
  \<^verbatim>\<open>CanCompareFrameROI\<close> (lines 1734-1779). The sum of the application layer count and
  the fudge factor is a \<^verbatim>\<open>uint32_t\<close>; the number of layers is compared with it as a
  number (a vector holds fewer than \<open>2 ^ 64\<close> elements).
\<close>

definition CanCompareFrameROI ::
  "FrameEnv \<Rightarrow> LayerStack \<Rightarrow> DisplayBuiltIn \<Rightarrow> bool \<times> DisplayBuiltIn" where
  "CanCompareFrameROI env ls s =
     (if needs_validate s \<or> comp_IsSafeMode env \<or> stack_needs_validate ls then (False, s)
      else if \<not> partial_update (hw_panel_info s) \<or> left_roi_count (hw_panel_info s) \<noteq> 1
              \<or> geometry_changed (flags ls) \<or> skip_present (flags ls)
              \<or> length (layers ls)
                  \<noteq> unat (app_layer_count (info s) + of_nat (stack_fudge_factor ls))
      then (False, s)
      else
        let s1 = (if color_mgr s \<and> color_NeedsPartialUpdateDisable env
                  then DisablePartialUpdateOneFrameInternal s else s)
        in if \<not> partial_update_control s1 \<or> disable_pu_one_frame s1
              \<or> disable_pu_on_dest_scaler s1
           then (False, s1)
           else (surface_damage_scan (push_bit (kSurfaceDamage env) 1) False (layers ls), s1))"

text \<open>
  The loop that copies the damage rectangles into the hardware layers (lines 1802-1812):
  \<open>n\<close> counts the iterations left, \<open>j\<close> is the loop's index. The result is the exception
  of an \<^verbatim>\<open>at\<close> out of range, or whether the loop ran to its end (\<open>False\<close> is the early
  \<^verbatim>\<open>return false\<close>) with the hardware layers as they are then.
\<close>

fun copy_dirty_regions ::
  "Layer list \<Rightarrow> u32 list \<Rightarrow> nat \<Rightarrow> nat \<Rightarrow> Layer list \<Rightarrow> exn + (bool \<times> Layer list)" where
  "copy_dirty_regions sdm_layers idx 0 j hw = Inr (True, hw)"
| "copy_dirty_regions sdm_layers idx (Suc n) j hw =
     (if length hw \<le> j \<or> length idx \<le> j then Inl out_of_range
      else if length sdm_layers \<le> unat (idx ! j) then Inl out_of_range
      else if length (dirty_regions (hw ! j))
                \<noteq> length (dirty_regions (sdm_layers ! unat (idx ! j)))
      then Inr (False, hw)
      else copy_dirty_regions sdm_layers idx n (Suc j)
             (hw[j := (hw ! j)\<lparr>dirty_regions :=
                                dirty_regions (sdm_layers ! unat (idx ! j))\<rparr>]))"

text \<open>
  The loop that marks the application layers as composed by the hardware (lines
  1823-1825): \<open>n\<close> counts the iterations left, \<open>i\<close> is the loop's index.
\<close>

fun mark_sde :: "nat \<Rightarrow> nat \<Rightarrow> Layer list \<Rightarrow> exn + Layer list" where
  "mark_sde 0 i ls = Inr ls"
| "mark_sde (Suc n) i ls =
     (if length ls \<le> i then Inl out_of_range
      else mark_sde n (Suc i) (ls[i := (ls ! i)\<lparr>composition := kCompositionSDE\<rparr>]))"

text \<open>
  \<^verbatim>\<open>CanSkipDisplayPrepare\<close> (lines 1781-1829). The result is the returned boolean with
  the layer stack and the object as the method leaves them, or the exception. The bound
  of the last loop is \<^verbatim>\<open>layers.size() - size_ff\<close> in \<^verbatim>\<open>size_t\<close>, which wraps around when
  the stack has fewer layers than \<^verbatim>\<open>size_ff\<close>.
\<close>

definition CanSkipDisplayPrepare ::
  "FrameEnv \<Rightarrow> LayerStack \<Rightarrow> DisplayBuiltIn \<Rightarrow> exn + (bool \<times> LayerStack \<times> DisplayBuiltIn)" where
  "CanSkipDisplayPrepare env ls s =
     (let (comparable, s1) = CanCompareFrameROI env ls s in
      if \<not> comparable then Inr (False, ls, s1)
      else
        let info1 = comp_GenerateROI env
                      ((info s1)\<lparr>left_frame_roi := [], right_frame_roi := [],
                                dest_scale_info_map := []\<rparr>);
            s2 = s1\<lparr>info := info1, calls := calls s1 @ [Comp_GenerateROI]\<rparr>
        in if left_frame_roi info1 = [] \<or> right_frame_roi info1 = [] then Inr (False, ls, s2)
           else
             let same_roi =
                   (IsCongruent env (cached_left_frame_roi s2) (hd (left_frame_roi info1))
                    \<and> IsCongruent env (cached_right_frame_roi s2) (hd (right_frame_roi info1)))
             in if same_roi then
                  (case copy_dirty_regions (layers ls) (index info1)
                          (length (hw_layers info1) mod 2 ^ 32) 0 (hw_layers info1) of
                     Inl e \<Rightarrow> Inl e
                   | Inr (finished, hw) \<Rightarrow>
                       let s3 = s2\<lparr>info := info1\<lparr>hw_layers := hw\<rparr>\<rparr> in
                       if \<not> finished then Inr (False, ls, s3)
                       else
                         let size_ff = stack_fudge_factor ls
                                         + (if noise_present info1 then 1 else 0)
                         in (case mark_sde ((2 ^ 64 + length (layers ls) - size_ff) mod 2 ^ 64)
                                     0 (layers ls) of
                               Inl e \<Rightarrow> Inl e
                             | Inr marked \<Rightarrow> Inr (True, ls\<lparr>layers := marked\<rparr>, s3)))
                else Inr (False, ls, s2))"

text \<open>
  \<^verbatim>\<open>PrePrepare\<close> (line 235) skips the validation of the frame when
  \<^verbatim>\<open>CanSkipDisplayPrepare\<close> returns true.
\<close>

definition fast_path_taken :: "FrameEnv \<Rightarrow> LayerStack \<Rightarrow> DisplayBuiltIn \<Rightarrow> bool" where
  "fast_path_taken env ls s =
     (case CanSkipDisplayPrepare env ls s of
        Inl e \<Rightarrow> False
      | Inr (skip, ls', s') \<Rightarrow> skip)"

text \<open>The update mask with the surface-damage bit alone, as line 1771 compares it.\<close>

definition surface_damage_only :: "FrameEnv \<Rightarrow> u64" where
  "surface_damage_only env = ucast (push_bit (kSurfaceDamage env) 1 :: u32)"

subsection \<open>Initialisation\<close>

text \<open>
  What the collaborators answer during \<^verbatim>\<open>Init\<close>: the build flag \<^verbatim>\<open>TRUSTED_VM\<close>, the two
  interface factories, the base class's \<^verbatim>\<open>Init\<close> (a function on the object: it fills the
  inherited members), the debug properties (the value left in the variable, which starts
  at 0), and the panel-feature plugins.
\<close>

record InitEnv =
  TRUSTED_VM :: bool
  HWInterface_Create_result :: DisplayError
  hw_GetDisplayId :: int
  base_Init :: "DisplayBuiltIn \<Rightarrow> DisplayError \<times> DisplayBuiltIn"
  IsVideoModeEnabled :: bool
  IsAVRDisabled :: bool
  GetProperty :: "property_name \<Rightarrow> int"
  HWEventsInterface_Create_result :: DisplayError
  CreateSPRIntf_result :: bool
  SPR_Init_result :: int
  GetDemuraStatus :: bool
  IsPrimaryDisplay :: bool
  GetDemuraFetchResources :: "nat list"
  CreateDemuraIntf_result :: bool
  Demura_Init_result :: int
  CreatePayload_BufferInfo :: int
  Demura_GetParameter :: "int \<times> BufferInfo"
  CreatePayload_bool :: int
  Demura_SetParameter :: "bool \<Rightarrow> int"

text \<open>\<^verbatim>\<open>initColorSamplingState\<close> (lines 346-356), without the constant identifiers.\<close>

definition initColorSamplingState :: "DisplayBuiltIn \<Rightarrow> DisplayBuiltIn" where
  "initColorSamplingState s =
     s\<lparr>samplingState := SamplingOff, histogramCtrl := kHistDisabled,
       histogramIRQ := kHistDisabled, histogramSetup := True\<rparr>"

text \<open>\<^verbatim>\<open>SetupSPR\<close> (lines 386-408).\<close>

definition SetupSPR :: "InitEnv \<Rightarrow> DisplayBuiltIn \<Rightarrow> DisplayError \<times> DisplayBuiltIn" where
  "SetupSPR env s =
     (if GetProperty env ENABLE_SPR \<noteq> 0 then
        (let s1 = s\<lparr>calls := calls s @ [CreateSPRIntf], spr := CreateSPRIntf_result env\<rparr> in
         if \<not> spr s1 then (kErrorResources, s1)
         else
           let s2 = s1\<lparr>calls := calls s1 @ [SPR_Init]\<rparr> in
           if SPR_Init_result env \<noteq> 0 then (kErrorResources, s2) else (kErrorNone, s2))
      else (kErrorNone, s))"

text \<open>\<^verbatim>\<open>SetupDemuraLayer\<close> (lines 472-512).\<close>

definition SetupDemuraLayer :: "InitEnv \<Rightarrow> DisplayBuiltIn \<Rightarrow> DisplayError \<times> DisplayBuiltIn" where
  "SetupDemuraLayer env s =
     (if CreatePayload_BufferInfo env \<noteq> 0 then (kErrorResources, s)
      else
        let s1 = s\<lparr>calls := calls s @ [Demura_GetParameter_CorrectionBuffer]\<rparr>;
            (ret, buffer) = Demura_GetParameter env
        in if ret \<noteq> 0 then (kErrorResources, s1)
           else
             let roi = \<lparr>rect_left = 0, rect_top = 0,
                        rect_right = of_nat (unat (config_width buffer)),
                        rect_bottom = of_nat (unat (config_height buffer))\<rparr>
             in (kErrorNone,
                 s1\<lparr>demura_layer := (demura_layer s1)
                      \<lparr>buf_size := alloc_size buffer, buf_id := alloc_id buffer,
                       buf_format := alloc_format buffer,
                       buf_width := alloc_aligned_width buffer,
                       buf_unaligned_width := alloc_aligned_width buffer,
                       buf_height := alloc_aligned_height buffer,
                       buf_unaligned_height := alloc_aligned_height buffer,
                       plane0_fd := alloc_fd buffer, plane0_stride := alloc_stride buffer,
                       plane0_offset := 0, buf_flag_demura := True,
                       demura_composition := kCompositionDemura,
                       demura_blending := kBlendingSkip, flag_is_demura := True,
                       src_rect := roi, dst_rect := roi, buffer_map_set := True\<rparr>\<rparr>))"

text \<open>\<^verbatim>\<open>SetDemuraIntfStatus\<close> (lines 2126-2148); \<^verbatim>\<open>-EINVAL\<close> is \<open>- 22\<close>.\<close>

definition SetDemuraIntfStatus :: "InitEnv \<Rightarrow> bool \<Rightarrow> DisplayBuiltIn \<Rightarrow> int \<times> DisplayBuiltIn" where
  "SetDemuraIntfStatus env enable s =
     (if \<not> demura s then (- 22, s)
      else if CreatePayload_bool env \<noteq> 0 then (CreatePayload_bool env, s)
      else (Demura_SetParameter env enable,
            s\<lparr>calls := calls s @ [Demura_SetParameter_Active enable]\<rparr>))"

text \<open>
  The two statements that switch Demura off for the display (lines 412-413, 425-426 and
  154-155).
\<close>

definition release_demura :: "DisplayBuiltIn \<Rightarrow> DisplayBuiltIn" where
  "release_demura s =
     s\<lparr>calls := calls s @ [Comp_FreeDemuraFetchResources, Comp_SetDemuraStatusForDisplay False]\<rparr>"

text \<open>\<^verbatim>\<open>SetupDemura\<close> (lines 410-470).\<close>

definition SetupDemura :: "InitEnv \<Rightarrow> DisplayBuiltIn \<Rightarrow> DisplayError \<times> DisplayBuiltIn" where
  "SetupDemura env s =
     (if \<not> GetDemuraStatus env then (kErrorNone, release_demura s)
      else
        let disabled = (if IsPrimaryDisplay env then GetProperty env DISABLE_DEMURA_PRIMARY
                        else GetProperty env DISABLE_DEMURA_SECONDARY)
        in if 0 < disabled then (kErrorNone, release_demura s)
           else if disabled = 0 then
             (let s1 = s\<lparr>calls := calls s @ [CreateDemuraIntf (GetDemuraFetchResources env)],
                        demura := CreateDemuraIntf_result env\<rparr>
              in if \<not> demura s1 then (kErrorMemory, s1)
                 else
                   let s2 = s1\<lparr>calls := calls s1 @ [Demura_Init]\<rparr> in
                   if Demura_Init_result env \<noteq> 0 then (kErrorUndefined, s2)
                   else
                     let (e, s3) = SetupDemuraLayer env s2 in
                     if e \<noteq> kErrorNone then (kErrorUndefined, s3)
                     else
                       let (ret, s4) = SetDemuraIntfStatus env True s3 in
                       if ret \<noteq> 0 then (kErrorUndefined, s4)
                       else (kErrorNone,
                             s4\<lparr>calls := calls s4 @ [Comp_SetDemuraStatusForDisplay True],
                                demura_intended := True\<rparr>))
           else (kErrorUndefined, s))"

text \<open>
  \<^verbatim>\<open>Init\<close> (lines 68-191), in parts, last part first. \<open>Init_properties\<close> is lines 163-190
  and returns the value of the variable \<^verbatim>\<open>error\<close> that it is given.
\<close>

definition Init_properties ::
  "InitEnv \<Rightarrow> DisplayError \<Rightarrow> DisplayBuiltIn \<Rightarrow> DisplayError \<times> DisplayBuiltIn" where
  "Init_properties env error s =
     (error,
      s\<lparr>disable_dyn_fps := (GetProperty env DISABLE_DYNAMIC_FPS = 1),
        enable_qsync_idle :=
          (qsync_support (hw_panel_info s) \<and> GetProperty env ENABLE_QSYNC_IDLE = 1),
        enhance_idle_time := (GetProperty env ENHANCE_IDLE_TIME = 1),
        enable_dpps_dyn_fps := (GetProperty env ENABLE_DPPS_DYNAMIC_FPS = 1),
        noise_disable_prop := (GetProperty env DISABLE_NOISE_LAYER = 1),
        calls := calls s @ [DisplayBase_NoiseInit]\<rparr>)"

text \<open>
  Lines 152-158: what \<^verbatim>\<open>Init\<close> does when \<^verbatim>\<open>SetupDemura\<close> fails ("non-fatal but not
  expected").
\<close>

definition demura_failed :: "InitEnv \<Rightarrow> DisplayBuiltIn \<Rightarrow> DisplayBuiltIn" where
  "demura_failed env s =
     (let s1 = release_demura s in
      if demura s1 then snd (SetDemuraIntfStatus env False s1) else s1)"

text \<open>
  Lines 125-131: the refresh rate, colour sampling and the deferred frame count.
\<close>

definition Init_rates :: "InitEnv \<Rightarrow> DisplayBuiltIn \<Rightarrow> DisplayBuiltIn" where
  "Init_rates env s =
     (let s1 = initColorSamplingState
                 (s\<lparr>current_refresh_rate := max_fps (hw_panel_info s)\<rparr>);
          count = GetProperty env DEFER_FPS_FRAME_COUNT
      in s1\<lparr>deferred_config := (deferred_config s1)
               \<lparr>frame_count := (if 0 < count then word_of_int count else 0)\<rparr>\<rparr>)"

text \<open>Lines 134-142: the rounded-corner property.\<close>

definition Init_rounded_corner :: "InitEnv \<Rightarrow> DisplayBuiltIn \<Rightarrow> DisplayBuiltIn" where
  "Init_rounded_corner env s =
     (if GetProperty env ENABLE_ROUNDED_CORNER \<noteq> 0 \<and> is_primary_panel (hw_panel_info s)
      then s\<lparr>rc_enable_prop := True\<rparr> else s)"

text \<open>
  Lines 134-159 and what follows them: the panel features, set up when the factory and
  the property interface are there. A failure of \<^verbatim>\<open>SetupSPR\<close> returns from \<^verbatim>\<open>Init\<close>; after
  \<^verbatim>\<open>SetupDemura\<close> the variable \<^verbatim>\<open>error\<close> still holds what \<^verbatim>\<open>SetupSPR\<close> returned.
\<close>

definition Init_panel_features ::
  "InitEnv \<Rightarrow> DisplayBuiltIn \<Rightarrow> DisplayError \<times> DisplayBuiltIn" where
  "Init_panel_features env s =
     (let (spr_error, s1) = SetupSPR env (Init_rounded_corner env s)
      in if spr_error \<noteq> kErrorNone
         then (spr_error, s1\<lparr>calls := calls s1 @ [DisplayBase_Deinit, HWInterface_Destroy]\<rparr>)
         else
           let (demura_error, s2) = SetupDemura env s1;
               s3 = (if demura_error \<noteq> kErrorNone then demura_failed env s2 else s2)
           in Init_properties env spr_error s3)"

text \<open>
  Lines 125-190. \<open>error\<close> is the variable as line 123 leaves it: what the creation of
  the hardware-events interface returned.
\<close>

definition Init_features ::
  "InitEnv \<Rightarrow> DisplayError \<Rightarrow> DisplayBuiltIn \<Rightarrow> DisplayError \<times> DisplayBuiltIn" where
  "Init_features env error s =
     (let s1 = Init_rates env s
      in if pf_factory s1 \<and> prop_intf s1 then Init_panel_features env s1
         else Init_properties env error s1)"

text \<open>
  Lines 88-123: the colour modes, the display mode, the events and their interface.
  When the interface cannot be created the base class and the hardware interface are
  released, and the method goes on.
\<close>

definition Init_events_interface :: "InitEnv \<Rightarrow> DisplayBuiltIn \<Rightarrow> DisplayBuiltIn" where
  "Init_events_interface env s =
     (let s1 = (if color_mgr s then s\<lparr>calls := calls s @ [ColorMgrGetStcModes]\<rparr> else s);
          s2 = (if mode (hw_panel_info s1) = kModeCommand \<and> IsVideoModeEnabled env
                then s1\<lparr>calls := calls s1 @ [HW_SetDisplayMode kModeVideo]\<rparr> else s1);
          events =
            (if TRUSTED_VM env then [VSYNC, EXIT, PINGPONG_TIMEOUT, PANEL_DEAD, HW_RECOVERY]
             else [VSYNC, EXIT, SHOW_BLANK_EVENT, THERMAL_LEVEL, PINGPONG_TIMEOUT, PANEL_DEAD,
                   HW_RECOVERY, HISTOGRAM, BACKLIGHT_EVENT, POWER_EVENT, MMRM, IDLE_NOTIFY]
                  @ (if mode (hw_panel_info s2) = kModeCommand then [IDLE_POWER_COLLAPSE]
                     else []))
            @ [POWER_EVENT];
          s3 = s2\<lparr>event_list := events, avr_prop_disabled := IsAVRDisabled env,
                  calls := calls s2 @ [HWEventsInterface_Create events]\<rparr>
      in if HWEventsInterface_Create_result env \<noteq> kErrorNone
         then s3\<lparr>calls := calls s3 @ [DisplayBase_Deinit, HWInterface_Destroy]\<rparr>
         else s3\<lparr>hw_events_intf := True\<rparr>)"

definition Init_events :: "InitEnv \<Rightarrow> DisplayBuiltIn \<Rightarrow> DisplayError \<times> DisplayBuiltIn" where
  "Init_events env s =
     Init_features env (HWEventsInterface_Create_result env) (Init_events_interface env s)"

text \<open>Lines 71-80: the hardware interface is there, and gives the display its id.\<close>

definition Init_hw_interface :: "InitEnv \<Rightarrow> DisplayBuiltIn \<Rightarrow> DisplayBuiltIn" where
  "Init_hw_interface env s =
     (let s1 = s\<lparr>hw_intf := True\<rparr>
      in if display_id s1 = - 1 then s1\<lparr>display_id := hw_GetDisplayId env\<rparr> else s1)"

definition Init :: "InitEnv \<Rightarrow> DisplayBuiltIn \<Rightarrow> DisplayError \<times> DisplayBuiltIn" where
  "Init env s =
     (let s1 = s\<lparr>calls := calls s @ [HWInterface_Create]\<rparr> in
      if HWInterface_Create_result env \<noteq> kErrorNone then (HWInterface_Create_result env, s1)
      else
        let s2 = Init_hw_interface env s1;
            (error, s3) = base_Init env (s2\<lparr>calls := calls s2 @ [DisplayBase_Init]\<rparr>)
        in if error \<noteq> kErrorNone
           then (error, s3\<lparr>calls := calls s3 @ [HWInterface_Destroy]\<rparr>)
           else Init_events env s3)"

text \<open>
  The Demura status that the composition manager was given last for the display, read
  off a call list from its end.
\<close>

fun last_demura_status :: "call list \<Rightarrow> bool option" where
  "last_demura_status [] = None"
| "last_demura_status (Comp_SetDemuraStatusForDisplay b # cs) = Some b"
| "last_demura_status (c # cs) = last_demura_status cs"

definition demura_status_of :: "call list \<Rightarrow> bool option" where
  "demura_status_of cs = last_demura_status (rev cs)"

subsection \<open>Sample objects\<close>

text \<open>
  A video-mode panel with qsync and dynamic refresh rate between 48 and 120 fps, and a
  display on that panel after its first frame: active, validated, running at 120 fps,
  with no qsync mode requested.
\<close>

definition sample_panel :: HWPanelInfo where
  "sample_panel =
     \<lparr>mode = kModeVideo, qsync_support = True, dynamic_fps = True, min_fps = 48,
      max_fps = 120, partial_update = True, left_roi_count = 1,
      panel_min_brightness = Finite 0, panel_max_brightness = Finite 255, transfer_time_us = 0, is_primary_panel = True,
      panel_name = ''panel'', panel_other = 0\<rparr>"

definition sample_attributes :: HWDisplayAttributes where
  "sample_attributes =
     \<lparr>fps = 120, vsync_period_ns = 8333333, x_pixels = 1080, y_pixels = 2400,
      attr_other = 0\<rparr>"

definition sample_mixer :: HWMixerAttributes where
  "sample_mixer = \<lparr>mixer_width = 1080, mixer_height = 2400, mixer_other = 0\<rparr>"

definition sample_rect :: LayerRect where
  "sample_rect = \<lparr>rect_left = 0, rect_top = 0, rect_right = 1080, rect_bottom = 2400\<rparr>"

definition sample_info :: HWLayersInfo where
  "sample_info =
     \<lparr>app_layer_count = 1, left_frame_roi = [sample_rect], right_frame_roi = [sample_rect],
      dest_scale_info_map = [], hw_layers = [], index = [], noise_present = False,
      hw_avr_info = \<lparr>avr_update = False, avr_mode = kQsyncNone\<rparr>\<rparr>"

definition sample_demura_layer :: DemuraLayer where
  "sample_demura_layer =
     \<lparr>buf_size = 0, buf_id = 0, buf_format = 0, buf_width = 0, buf_unaligned_width = 0,
      buf_height = 0, buf_unaligned_height = 0, plane0_fd = - 1, plane0_stride = 0,
      plane0_offset = 0, buf_flag_demura = False, demura_composition = kCompositionGPU,
      demura_blending = kBlendingPremultiplied, flag_is_demura = False,
      src_rect = sample_rect, dst_rect = sample_rect, buffer_map_set = False\<rparr>"

definition sample_display :: DisplayBuiltIn where
  "sample_display =
     \<lparr>calls = [], display_id = 0, hw_intf = True, hw_events_intf = True, color_mgr = False,
      pf_factory = True, prop_intf = True, spr = False, demura = False,
      hw_panel_info = sample_panel, display_attributes = sample_attributes,
      mixer_attributes = sample_mixer, info = sample_info, active = True, validated = True,
      needs_validate = False, first_cycle = False, vsync_enable = True,
      pending_vsync_enable = False, partial_update_control = True,
      disable_pu_one_frame = False, disable_pu_on_dest_scaler = False,
      handle_idle_timeout = False, enable_qsync_idle = False, enhance_idle_time = False,
      disable_dyn_fps = False, enable_dpps_dyn_fps = False, noise_disable_prop = False,
      avr_prop_disabled = False, rc_enable_prop = False, qsync_mode = kQSyncModeNone,
      active_qsync_mode = kQSyncModeNone, needs_avr_update = False,
      current_refresh_rate = 120,
      deferred_config = \<lparr>frame_count = 0, defer_fps = 0, defer_vsync_period_ns = 0,
                          defer_transfer_time_us = 0, defer_other = 0\<rparr>,
      default_clock_hz = 0, idle_timer_start = \<lparr>tv_sec = 0, tv_nsec = 0\<rparr>,
      idle_time_ms = 0, level_remainder = Finite 0, cached_brightness = Finite 0,
      pending_brightness = False, cached_left_frame_roi = sample_rect,
      cached_right_frame_roi = sample_rect, event_list = [], samplingState = SamplingOff,
      histogramCtrl = kHistDisabled, histogramIRQ = kHistDisabled, histogramSetup = True,
      demura_layer = sample_demura_layer, demura_intended = False, dpps_intf = False\<rparr>"

text \<open>
  An instance of the methods of \<^verbatim>\<open>deferred_config_\<close> for the sample objects: no deferred
  state is reported and nothing is changed.
\<close>

definition sample_ops :: DeferFpsOps where
  "sample_ops =
     \<lparr>IsDirty = (\<lambda>d. False), IsDeferredState = (\<lambda>d. False),
      CanApplyDeferredState = (\<lambda>d. False), MarkDirty = (\<lambda>d. d), Clear = (\<lambda>d. d),
      DeferInit = (\<lambda>r v t d. d)\<rparr>"

text \<open>
  Collaborators that accept every command and report the sample configuration, ten
  seconds after the idle timer was started.
\<close>

definition sample_env :: RefreshEnv where
  "sample_env =
     \<lparr>clock_now = \<lparr>tv_sec = 10, tv_nsec = 0\<rparr>,
      hw_SetRefreshRate = (\<lambda>r. kErrorNone),
      comp_CheckEnforceSplit = (\<lambda>r. kErrorNone),
      hw_GetActiveConfig = (kErrorNone, 0),
      hw_GetDisplayAttributes = (\<lambda>i. (kErrorNone, sample_attributes)),
      hw_GetMixerAttributes = (kErrorNone, sample_mixer),
      hw_GetHWPanelInfo = (kErrorNone, sample_panel),
      comp_ReconfigureDisplay = (\<lambda>a p m. (kErrorNone, 0)),
      attributes_equal = (\<lambda>a b. a = b),
      mixer_equal = (\<lambda>a b. a = b),
      panel_equal = (\<lambda>a b. a = b),
      OnlyFpsChanged = (\<lambda>a b. a\<lparr>fps := fps b, vsync_period_ns := vsync_period_ns b\<rparr> = b),
      pu_on_dest_scaler = False\<rparr>"

text \<open>The sample display when the idle timeout has fired; qsync-on-idle is disabled.\<close>

definition timed_out_display :: DisplayBuiltIn where
  "timed_out_display = sample_display\<lparr>handle_idle_timeout := True\<rparr>"

text \<open>
  The sample display at the panel's minimum rate when the idle timeout has fired, with
  the enhanced idle time enabled.
\<close>

definition lowest_rate_display :: DisplayBuiltIn where
  "lowest_rate_display =
     sample_display\<lparr>enhance_idle_time := True, handle_idle_timeout := True,
                    current_refresh_rate := 48\<rparr>"

text \<open>The sample display when the idle timeout has fired and qsync-on-idle is enabled.\<close>

definition idle_display :: DisplayBuiltIn where
  "idle_display = sample_display\<lparr>handle_idle_timeout := True, enable_qsync_idle := True\<rparr>"

text \<open>The idle display when the client has requested the mode OneShot.\<close>

definition oneshot_idle_display :: DisplayBuiltIn where
  "oneshot_idle_display = idle_display\<lparr>qsync_mode := kQsyncModeOneShot\<rparr>"

text \<open>The sample collaborators when the hardware reports the panel in command mode.\<close>

definition command_mode_env :: RefreshEnv where
  "command_mode_env =
     sample_env\<lparr>hw_GetHWPanelInfo := (kErrorNone, sample_panel\<lparr>mode := kModeCommand\<rparr>)\<rparr>"

text \<open>The idle display after a frame was prepared: the idle override is in force.\<close>

definition override_display :: DisplayBuiltIn where
  "override_display = UpdateQsyncMode idle_display"

text \<open>
  A frame for the fast path: one application layer whose content was damaged, and the
  GPU target layer; the composition manager generates the cached region of interest.
\<close>

definition sample_frame_env :: FrameEnv where
  "sample_frame_env =
     \<lparr>comp_IsSafeMode = False, color_NeedsPartialUpdateDisable = False, kSurfaceDamage = 2,
      comp_GenerateROI =
        (\<lambda>i. i\<lparr>left_frame_roi := [sample_rect], right_frame_roi := [sample_rect]\<rparr>),
      IsCongruent = (\<lambda>a b. a = b)\<rparr>"

definition damage_rect :: LayerRect where
  "damage_rect = \<lparr>rect_left = 0, rect_top = 0, rect_right = 100, rect_bottom = 100\<rparr>"

definition sample_stack :: LayerStack where
  "sample_stack =
     \<lparr>layers = [\<lparr>update_mask = 4, dirty_regions = [damage_rect],
                  composition = kCompositionGPU\<rparr>,
                 \<lparr>update_mask = 0, dirty_regions = [],
                  composition = kCompositionGPUTarget\<rparr>],
      flags = \<lparr>geometry_changed = False, skip_present = False, stitch_present = False,
               demura_present = False\<rparr>,
      stack_needs_validate = False\<rparr>"

definition prepared_display :: DisplayBuiltIn where
  "prepared_display =
     sample_display\<lparr>info := sample_info
       \<lparr>hw_layers := [\<lparr>update_mask = 0, dirty_regions = [sample_rect],
                        composition = kCompositionSDE\<rparr>],
        index := [0]\<rparr>\<rparr>"

text \<open>
  A display before \<^verbatim>\<open>Init\<close>, and collaborators for it: every property is unset, the
  base class succeeds and provides the feature factory, the property interface and the
  panel's description, Demura is switched off.
\<close>

definition fresh_display :: DisplayBuiltIn where
  "fresh_display =
     sample_display\<lparr>display_id := - 1, hw_intf := False, hw_events_intf := False,
                    pf_factory := False, prop_intf := False,
                    active := False, validated := False, first_cycle := True,
                    current_refresh_rate := 0, histogramSetup := False\<rparr>"

definition sample_buffer :: BufferInfo where
  "sample_buffer =
     \<lparr>alloc_size = 4096, alloc_id = 1, alloc_format = 0, alloc_aligned_width = 64,
      alloc_aligned_height = 16, alloc_fd = 7, alloc_stride = 256, config_width = 64,
      config_height = 16\<rparr>"

definition sample_init_env :: InitEnv where
  "sample_init_env =
     \<lparr>TRUSTED_VM = False, HWInterface_Create_result = kErrorNone, hw_GetDisplayId = 0,
      base_Init = (\<lambda>s. (kErrorNone, s\<lparr>pf_factory := True, prop_intf := True,
                                       hw_panel_info := sample_panel\<rparr>)),
      IsVideoModeEnabled = False, IsAVRDisabled = False,
      GetProperty = (\<lambda>n. 0), HWEventsInterface_Create_result = kErrorNone,
      CreateSPRIntf_result = True, SPR_Init_result = 0, GetDemuraStatus = False,
      IsPrimaryDisplay = True, GetDemuraFetchResources = [0],
      CreateDemuraIntf_result = True, Demura_Init_result = 0, CreatePayload_BufferInfo = 0,
      Demura_GetParameter = (0, sample_buffer), CreatePayload_bool = 0,
      Demura_SetParameter = (\<lambda>b. 0)\<rparr>"

text \<open>The same collaborators when the hardware-events interface cannot be created.\<close>

definition events_failure_env :: InitEnv where
  "events_failure_env = sample_init_env\<lparr>HWEventsInterface_Create_result := kErrorResources\<rparr>"

text \<open>The same collaborators when SPR is enabled and its plugin fails to initialise.\<close>

definition spr_failure_env :: InitEnv where
  "spr_failure_env =
     sample_init_env\<lparr>GetProperty := (\<lambda>n. if n = ENABLE_SPR then 1 else 0),
                     SPR_Init_result := - 1\<rparr>"

text \<open>The same collaborators when Demura is enabled and its plugin fails to initialise.\<close>

definition demura_failure_env :: InitEnv where
  "demura_failure_env = sample_init_env\<lparr>GetDemuraStatus := True, Demura_Init_result := - 1\<rparr>"

text \<open>A hardware interface that accepts every brightness level.\<close>

definition hw_accepts :: "int \<Rightarrow> DisplayError" where
  "hw_accepts level = kErrorNone"

section \<open>Properties\<close>

subsection \<open>Fields of the sample objects\<close>

lemma sample_display_fields:
  "active sample_display" "dynamic_fps (hw_panel_info sample_display)"
  "qsync_support (hw_panel_info sample_display)"
  "mode (hw_panel_info sample_display) = kModeVideo"
  "qsync_mode sample_display = kQSyncModeNone"
  "active_qsync_mode sample_display = kQSyncModeNone"
  "\<not> disable_dyn_fps sample_display" "min_fps (hw_panel_info sample_display) = 48"
  "max_fps (hw_panel_info sample_display) = 120" "current_refresh_rate sample_display = 120"
  "\<not> enhance_idle_time sample_display" "\<not> handle_idle_timeout sample_display"
  "\<not> enable_qsync_idle sample_display" "calls sample_display = []"
  "\<not> first_cycle sample_display" "validated sample_display"
  "\<not> needs_avr_update sample_display"
  "panel_min_brightness (hw_panel_info sample_display) = Finite 0"
  "panel_max_brightness (hw_panel_info sample_display) = Finite 255"
  by (simp_all add: sample_display_def sample_panel_def)

lemma idle_display_fields:
  "qsync_support (hw_panel_info idle_display)"
  "mode (hw_panel_info idle_display) \<noteq> kModeCommand"
  "handle_idle_timeout idle_display" "enable_qsync_idle idle_display"
  "qsync_mode idle_display = kQSyncModeNone" "\<not> first_cycle idle_display"
  "active idle_display" "supports_rates (hw_panel_info idle_display) 48 120"
  "\<not> enhance_idle_time idle_display" "\<not> disable_dyn_fps idle_display"
  "current_refresh_rate idle_display = 120"
  by (simp_all add: idle_display_def sample_display_def sample_panel_def supports_rates_def)

lemma override_display_eq:
  "override_display =
     idle_display\<lparr>info := sample_info\<lparr>hw_avr_info :=
                      \<lparr>avr_update = True, avr_mode = kContinuousMode\<rparr>\<rparr>,
                  active_qsync_mode := kQSyncModeContinuous\<rparr>"
  by (simp add: override_display_def UpdateQsyncMode_def idle_display_def sample_display_def
      sample_panel_def Let_def)

subsection \<open>Adaptive sync\<close>

text \<open>
  What \<^verbatim>\<open>UpdateQsyncMode\<close> computes on a panel with qsync support outside command mode,
  with and without the idle timeout.
\<close>

lemma UpdateQsyncMode_idle:
  assumes "qsync_support (hw_panel_info s)" "mode (hw_panel_info s) \<noteq> kModeCommand"
    and "handle_idle_timeout s" "enable_qsync_idle s"
  shows "active_qsync_mode (UpdateQsyncMode s) = kQSyncModeContinuous"
    and "qsync_mode (UpdateQsyncMode s) = qsync_mode s"
  using assms by (simp_all add: UpdateQsyncMode_def Let_def)


lemma UpdateQsyncMode_panel: "hw_panel_info (UpdateQsyncMode s) = hw_panel_info s"
  by (simp add: UpdateQsyncMode_def Let_def)

lemma SetQSyncMode_panel: "hw_panel_info (snd (SetQSyncMode m s)) = hw_panel_info s"
  by (simp add: SetQSyncMode_def)

lemma qsync_post_branch_fields:
  "qsync_mode (qsync_post_branch s) = qsync_mode s"
  "needs_avr_update (qsync_post_branch s) = needs_avr_update s"
  "validated (qsync_post_branch s) = validated s"
  "hw_panel_info (qsync_post_branch s) = hw_panel_info s"
  by (simp_all add: qsync_post_branch_def SetVsyncStatus_def Let_def)

lemma HandleQsyncPostCommit_panel: "hw_panel_info (HandleQsyncPostCommit s) = hw_panel_info s"
  by (simp add: HandleQsyncPostCommit_def qsync_post_branch_fields qsync_mode_branch_def
      SetQSyncMode_panel)

lemma PostCommit_tail_panel: "hw_panel_info (PostCommit_tail s) = hw_panel_info s"
  by (simp add: PostCommit_tail_def HandleQsyncPostCommit_panel)

lemma PostCommit_tail_idle: "\<not> handle_idle_timeout (PostCommit_tail s)"
  by (simp add: PostCommit_tail_def)

text \<open>
  Where the hypotheses of the next theorems come from. The client's mode changes only
  through \<^verbatim>\<open>SetQSyncMode\<close>, on a panel with qsync support after the first cycle; the idle
  flag is raised only by \<^verbatim>\<open>IdleTimeout\<close>, on a panel in video mode; and \<^verbatim>\<open>Init\<close> enables
  qsync-on-idle only on a panel with qsync support.
\<close>

lemma SetQSyncMode_changes_only_when_supported:
  "qsync_mode (snd (SetQSyncMode m s)) \<noteq> qsync_mode s \<Longrightarrow>
     qsync_support (hw_panel_info s) \<and> \<not> first_cycle s"
  by (simp add: SetQSyncMode_def split: if_splits)

lemma IdleTimeout_raises_flag_in_video_mode:
  "handle_idle_timeout (IdleTimeout handled s) \<Longrightarrow> \<not> handle_idle_timeout s \<Longrightarrow>
     mode (hw_panel_info s) = kModeVideo \<and> handled = kErrorNone"
  by (simp add: IdleTimeout_def split: if_splits)

lemma Init_properties_qsync_idle:
  "enable_qsync_idle (snd (Init_properties env e s)) \<Longrightarrow>
     qsync_support (hw_panel_info (snd (Init_properties env e s)))"
  by (simp add: Init_properties_def)



text \<open>
  C9, as stated, fails: \<^verbatim>\<open>SetQSyncMode\<close> compares the request with the client's mode, not
  with the active mode. On the display under the idle override the active mode is
  Continuous and the client's mode is None; requesting the active mode succeeds, changes
  the client's mode, sets the needs-avr-update flag and invalidates the display.
\<close>

theorem SetQSyncMode_active_mode_has_effect:
  "active_qsync_mode override_display = kQSyncModeContinuous
   \<and> fst (SetQSyncMode (active_qsync_mode override_display) override_display) = kErrorNone
   \<and> qsync_mode override_display = kQSyncModeNone
   \<and> qsync_mode (snd (SetQSyncMode (active_qsync_mode override_display) override_display))
       = kQSyncModeContinuous
   \<and> \<not> needs_avr_update override_display
   \<and> needs_avr_update (snd (SetQSyncMode (active_qsync_mode override_display) override_display))
   \<and> validated override_display
   \<and> \<not> validated (snd (SetQSyncMode (active_qsync_mode override_display) override_display))"
  by (simp add: override_display_eq SetQSyncMode_def idle_display_def sample_display_def
      sample_panel_def)

text \<open>
  C9, amended. Calling \<^verbatim>\<open>SetQSyncMode\<close> with a mode equal to the mode the client
  requested last, on a panel with qsync support after the first cycle, returns success
  and leaves the whole object as it is: the needs-avr-update flag, the requested mode,
  the validation state, and no refresh is asked for.
\<close>

theorem SetQSyncMode_requested_mode_noop:
  "qsync_support (hw_panel_info s) \<Longrightarrow> \<not> first_cycle s \<Longrightarrow>
     SetQSyncMode (qsync_mode s) s = (kErrorNone, s)"
  by (simp add: SetQSyncMode_def)

theorem SetQSyncMode_requested_mode_noop_witness:
  "qsync_support (hw_panel_info override_display) \<and> \<not> first_cycle override_display
   \<and> qsync_mode override_display \<noteq> active_qsync_mode override_display
   \<and> SetQSyncMode (qsync_mode override_display) override_display
       = (kErrorNone, override_display)"
  using SetQSyncMode_requested_mode_noop [of override_display]
  by (simp add: override_display_eq idle_display_def sample_display_def sample_panel_def)

text \<open>
  C10. \<^verbatim>\<open>GetQSyncMode\<close> succeeds and returns the active mode, whatever the state. After a
  frame prepared under the idle override it therefore reports Continuous, while the
  client's mode (None or OneShot) is what it was: the query does not return the client's
  mode.
\<close>

theorem GetQSyncMode_reports_idle_override:
  "GetQSyncMode s = (kErrorNone, active_qsync_mode s)
   \<and> (qsync_support (hw_panel_info s) \<and> mode (hw_panel_info s) \<noteq> kModeCommand
        \<and> handle_idle_timeout s \<and> enable_qsync_idle s
        \<and> (qsync_mode s = kQSyncModeNone \<or> qsync_mode s = kQsyncModeOneShot)
      \<longrightarrow> GetQSyncMode (UpdateQsyncMode s) = (kErrorNone, kQSyncModeContinuous)
        \<and> qsync_mode (UpdateQsyncMode s) = qsync_mode s
        \<and> snd (GetQSyncMode (UpdateQsyncMode s)) \<noteq> qsync_mode (UpdateQsyncMode s))"
  by (auto simp add: GetQSyncMode_def UpdateQsyncMode_idle)

text \<open>
  The theorem at the idle display (Continuous is reported, the client's mode is None), at
  the sample display, whose active mode is None, and at a display whose active mode is
  OneShot while the client's mode is None.
\<close>

theorem GetQSyncMode_reports_idle_override_witness:
  "qsync_support (hw_panel_info idle_display) \<and> mode (hw_panel_info idle_display) \<noteq> kModeCommand
   \<and> handle_idle_timeout idle_display \<and> enable_qsync_idle idle_display
   \<and> qsync_mode idle_display = kQSyncModeNone
   \<and> GetQSyncMode (UpdateQsyncMode idle_display) = (kErrorNone, kQSyncModeContinuous)
   \<and> qsync_mode (UpdateQsyncMode idle_display) = kQSyncModeNone
   \<and> GetQSyncMode sample_display = (kErrorNone, kQSyncModeNone)
   \<and> qsync_mode (sample_display\<lparr>active_qsync_mode := kQsyncModeOneShot\<rparr>) = kQSyncModeNone
   \<and> GetQSyncMode (sample_display\<lparr>active_qsync_mode := kQsyncModeOneShot\<rparr>)
       = (kErrorNone, kQsyncModeOneShot)"
  using GetQSyncMode_reports_idle_override [of idle_display]
    GetQSyncMode_reports_idle_override [of sample_display]
    GetQSyncMode_reports_idle_override [of "sample_display\<lparr>active_qsync_mode := kQsyncModeOneShot\<rparr>"]
  by (simp add: idle_display_fields sample_display_fields)
subsection \<open>Refresh rate\<close>

text \<open>
  What \<^verbatim>\<open>ReconfigureDisplay\<close> leaves alone: the current refresh rate and the switches
  that \<^verbatim>\<open>SetRefreshRate\<close> tests; it issues no refresh-rate command, removes no call, and
  a panel that supports a range of rates still does when the hardware reports that range.
\<close>

lemma reconfigure_changed_keeps:
  "current_refresh_rate (snd (reconfigure_changed ops env mu pu da ma pinfo s))
     = current_refresh_rate s"
  "active (snd (reconfigure_changed ops env mu pu da ma pinfo s)) = active s"
  "qsync_mode (snd (reconfigure_changed ops env mu pu da ma pinfo s)) = qsync_mode s"
  "disable_dyn_fps (snd (reconfigure_changed ops env mu pu da ma pinfo s)) = disable_dyn_fps s"
  "enable_qsync_idle (snd (reconfigure_changed ops env mu pu da ma pinfo s))
     = enable_qsync_idle s"
  by (simp_all add: reconfigure_changed_def Let_def DisablePartialUpdateOneFrameInternal_def
      DppsNotifyOps_UpdateFps_def case_prod_beta)

lemma reconfigure_compare_keeps:
  "current_refresh_rate (snd (reconfigure_compare ops env da ma pinfo s))
     = current_refresh_rate s"
  "active (snd (reconfigure_compare ops env da ma pinfo s)) = active s"
  "qsync_mode (snd (reconfigure_compare ops env da ma pinfo s)) = qsync_mode s"
  "disable_dyn_fps (snd (reconfigure_compare ops env da ma pinfo s)) = disable_dyn_fps s"
  "enable_qsync_idle (snd (reconfigure_compare ops env da ma pinfo s)) = enable_qsync_idle s"
  by (simp_all add: reconfigure_compare_def Let_def reconfigure_changed_keeps
      SetDeferredFpsConfig_def case_prod_beta)

lemma ReconfigureDisplay_keeps:
  "current_refresh_rate (snd (ReconfigureDisplay ops env s)) = current_refresh_rate s"
  "active (snd (ReconfigureDisplay ops env s)) = active s"
  "qsync_mode (snd (ReconfigureDisplay ops env s)) = qsync_mode s"
  "disable_dyn_fps (snd (ReconfigureDisplay ops env s)) = disable_dyn_fps s"
  "enable_qsync_idle (snd (ReconfigureDisplay ops env s)) = enable_qsync_idle s"
  by (simp_all add: ReconfigureDisplay_def Let_def reconfigure_compare_keeps case_prod_beta)

lemma supports_rates_transfer_time [simp]:
  "supports_rates (p\<lparr>transfer_time_us := x\<rparr>) lo hi = supports_rates p lo hi"
  by (simp add: supports_rates_def)

lemma reconfigure_changed_panel:
  "supports_rates (hw_panel_info s) lo hi \<Longrightarrow> supports_rates pinfo lo hi \<Longrightarrow>
   supports_rates (hw_panel_info (snd (reconfigure_changed ops env mu pu da ma pinfo s))) lo hi"
  by (simp add: reconfigure_changed_def Let_def DisablePartialUpdateOneFrameInternal_def
      DppsNotifyOps_UpdateFps_def GetFpsConfig_def case_prod_beta)

lemma reconfigure_compare_panel:
  "supports_rates (hw_panel_info s) lo hi \<Longrightarrow> supports_rates pinfo lo hi \<Longrightarrow>
   supports_rates (hw_panel_info (snd (reconfigure_compare ops env da ma pinfo s))) lo hi"
  by (simp add: reconfigure_compare_def Let_def reconfigure_changed_panel
      SetDeferredFpsConfig_def GetFpsConfig_def case_prod_beta)

lemma ReconfigureDisplay_panel:
  "supports_rates (hw_panel_info s) lo hi \<Longrightarrow>
   supports_rates (snd (hw_GetHWPanelInfo env)) lo hi \<Longrightarrow>
   supports_rates (hw_panel_info (snd (ReconfigureDisplay ops env s))) lo hi"
  by (simp add: ReconfigureDisplay_def Let_def reconfigure_compare_panel case_prod_beta)

lemma reconfigure_changed_rate_commands:
  "rate_commands (calls (snd (reconfigure_changed ops env mu pu da ma pinfo s)))
     = rate_commands (calls s)"
  by (simp add: reconfigure_changed_def Let_def DisablePartialUpdateOneFrameInternal_def
      DppsNotifyOps_UpdateFps_def case_prod_beta rate_commands_def)

lemma reconfigure_changed_calls:
  "c \<in> set (calls s) \<Longrightarrow>
   c \<in> set (calls (snd (reconfigure_changed ops env mu pu da ma pinfo s)))"
  by (simp add: reconfigure_changed_def Let_def DisablePartialUpdateOneFrameInternal_def
      DppsNotifyOps_UpdateFps_def case_prod_beta)

lemma reconfigure_compare_rate_commands:
  "rate_commands (calls (snd (reconfigure_compare ops env da ma pinfo s)))
     = rate_commands (calls s)"
  by (simp add: reconfigure_compare_def Let_def reconfigure_changed_rate_commands
      SetDeferredFpsConfig_def case_prod_beta)

lemma reconfigure_compare_calls:
  "c \<in> set (calls s) \<Longrightarrow> c \<in> set (calls (snd (reconfigure_compare ops env da ma pinfo s)))"
  by (simp add: reconfigure_compare_def Let_def SetDeferredFpsConfig_def case_prod_beta
      reconfigure_changed_calls)

lemma ReconfigureDisplay_rate_commands:
  "rate_commands (calls (snd (ReconfigureDisplay ops env s))) = rate_commands (calls s)"
  by (simp add: ReconfigureDisplay_def Let_def reconfigure_compare_rate_commands
      case_prod_beta)

lemma ReconfigureDisplay_calls:
  "c \<in> set (calls s) \<Longrightarrow> c \<in> set (calls (snd (ReconfigureDisplay ops env s)))"
  by (simp add: ReconfigureDisplay_def Let_def case_prod_beta reconfigure_compare_calls)

text \<open>The last part of \<^verbatim>\<open>SetRefreshRate\<close>: the new rate is stored whatever follows.\<close>

lemma refresh_rate_commit_rate:
  "current_refresh_rate (snd (refresh_rate_commit ops env r s)) = r"
  by (simp add: refresh_rate_commit_def Let_def ReconfigureDisplay_keeps)

lemma refresh_rate_commit_keeps:
  "active (snd (refresh_rate_commit ops env r s)) = active s"
  "qsync_mode (snd (refresh_rate_commit ops env r s)) = qsync_mode s"
  "disable_dyn_fps (snd (refresh_rate_commit ops env r s)) = disable_dyn_fps s"
  "enable_qsync_idle (snd (refresh_rate_commit ops env r s)) = enable_qsync_idle s"
  by (simp_all add: refresh_rate_commit_def Let_def ReconfigureDisplay_keeps)

lemma refresh_rate_commit_panel:
  "supports_rates (hw_panel_info s) lo hi \<Longrightarrow>
   supports_rates (snd (hw_GetHWPanelInfo env)) lo hi \<Longrightarrow>
   supports_rates (hw_panel_info (snd (refresh_rate_commit ops env r s))) lo hi"
  by (simp add: refresh_rate_commit_def Let_def ReconfigureDisplay_panel)

lemma refresh_rate_commit_rate_commands:
  "rate_commands (calls (snd (refresh_rate_commit ops env r s))) = rate_commands (calls s)"
  by (simp add: refresh_rate_commit_def Let_def ReconfigureDisplay_rate_commands)
    (simp add: rate_commands_def)

lemma refresh_rate_commit_safe_mode:
  "enhance_idle_time s \<Longrightarrow> handle_idle_timeout s \<Longrightarrow> r = min_fps (hw_panel_info s) \<Longrightarrow>
   Comp_ProcessIdleTimeout \<in> set (calls (snd (refresh_rate_commit ops env r s)))"
  by (simp add: refresh_rate_commit_def Let_def ReconfigureDisplay_calls)

text \<open>
  An accepted request whose commands the hardware and the composition manager accept
  reaches the last part with the lowered rate.
\<close>

lemma SetRefreshRate_accepted:
  assumes "active s" "supports_rates (hw_panel_info s) lo hi" "qsync_mode s = kQSyncModeNone"
    and "\<not> disable_dyn_fps s" "lo \<le> requested" "requested \<le> hi"
    and "hw_SetRefreshRate env (lowered_rate env requested final_rate idle_screen s)
           = kErrorNone"
    and "comp_CheckEnforceSplit env (lowered_rate env requested final_rate idle_screen s)
           = kErrorNone"
  shows "SetRefreshRate ops env requested final_rate idle_screen s =
           refresh_rate_commit ops env (lowered_rate env requested final_rate idle_screen s)
             (if current_refresh_rate s \<noteq> lowered_rate env requested final_rate idle_screen s
              then s\<lparr>calls := calls s @
                     [HW_SetRefreshRate (lowered_rate env requested final_rate idle_screen s),
                      Comp_CheckEnforceSplit
                        (lowered_rate env requested final_rate idle_screen s)]\<rparr>
              else s)"
proof -
  have "\<not> requested < lo" "\<not> hi < requested"
    using assms(5,6) by simp_all
  then show ?thesis
    using assms by (simp add: SetRefreshRate_def supports_rates_def Let_def)
qed

text \<open>Whatever the collaborators answer, the rate afterwards is the old or the lowered one.\<close>

lemma SetRefreshRate_rate:
  "current_refresh_rate (snd (SetRefreshRate ops env requested final_rate idle_screen s))
     = current_refresh_rate s
   \<or> current_refresh_rate (snd (SetRefreshRate ops env requested final_rate idle_screen s))
     = lowered_rate env requested final_rate idle_screen s"
  by (simp add: SetRefreshRate_def Let_def refresh_rate_commit_rate)

text \<open>
  C4, as stated, fails: with qsync-on-idle enabled the rate is not lowered while the
  screen idles. On the idle display (48 to 120 fps, dynamic rate, no qsync mode requested,
  active, idle timeout fired) a request for 90 fps that is not final never leaves the
  display at 48 fps, whatever the collaborators answer; when they accept every command
  the call succeeds and the display runs at 90 fps.
\<close>

theorem idle_clamp_skipped_with_qsync_idle:
  "active idle_display \<and> supports_rates (hw_panel_info idle_display) 48 120
   \<and> qsync_mode idle_display = kQSyncModeNone \<and> handle_idle_timeout idle_display
   \<and> CanLowerFps (clock_now sample_env) True idle_display
   \<and> (\<forall>ops env. current_refresh_rate (snd (SetRefreshRate ops env 90 False True idle_display))
                    \<noteq> 48)
   \<and> fst (SetRefreshRate sample_ops sample_env 90 False True idle_display) = kErrorNone
   \<and> current_refresh_rate (snd (SetRefreshRate sample_ops sample_env 90 False True idle_display))
       = 90"
proof -
  note f = idle_display_fields
  have low: "lowered_rate env 90 False True idle_display = 90" for env
    by (simp add: lowered_rate_def f)
  have never: "current_refresh_rate (snd (SetRefreshRate ops env 90 False True idle_display))
                 \<noteq> 48" for ops env
    using SetRefreshRate_rate [of ops env 90 False True idle_display]
    by (auto simp add: low f)
  have e: "hw_SetRefreshRate sample_env 90 = kErrorNone"
    "comp_CheckEnforceSplit sample_env 90 = kErrorNone"
    by (simp_all add: sample_env_def)
  have run: "SetRefreshRate sample_ops sample_env 90 False True idle_display
      = refresh_rate_commit sample_ops sample_env 90
          (idle_display\<lparr>calls := calls idle_display
                         @ [HW_SetRefreshRate 90, Comp_CheckEnforceSplit 90]\<rparr>)"
    using SetRefreshRate_accepted [of idle_display 48 120 90 sample_env False True sample_ops]
    by (simp add: f low e)
  have ok: "fst (refresh_rate_commit sample_ops sample_env 90
          (idle_display\<lparr>calls := calls idle_display
                         @ [HW_SetRefreshRate 90, Comp_CheckEnforceSplit 90]\<rparr>)) = kErrorNone"
    by (simp add: refresh_rate_commit_def ReconfigureDisplay_def reconfigure_compare_def Let_def
        sample_env_def sample_ops_def idle_display_def sample_display_def)
  show ?thesis
    by (simp add: f CanLowerFps_def run refresh_rate_commit_rate ok never)
qed

text \<open>
  C4, amended. For a panel supporting 48 to 120 fps with dynamic-rate support, no qsync
  mode requested, the display active, dynamic fps not disabled and qsync-on-idle not
  enabled: a call SetRefreshRate(90, final = false) made while the idle condition holds
  (\<^verbatim>\<open>CanLowerFps\<close>), whose commands for 48 fps the hardware and the composition manager
  accept, sets the current refresh rate to the panel's minimum, 48 fps; and a subsequent
  call SetRefreshRate(90, final = true), on the panel still reported with that range and
  with the commands for 90 fps accepted, sets it to exactly 90 fps.
\<close>

theorem idle_clamp_then_final_rate:
  assumes "active s" "supports_rates (hw_panel_info s) 48 120" "qsync_mode s = kQSyncModeNone"
    and "\<not> disable_dyn_fps s" "\<not> enable_qsync_idle s"
    and "CanLowerFps (clock_now env1) idle1 s"
    and "hw_SetRefreshRate env1 48 = kErrorNone" "comp_CheckEnforceSplit env1 48 = kErrorNone"
    and "supports_rates (snd (hw_GetHWPanelInfo env1)) 48 120"
    and "hw_SetRefreshRate env2 90 = kErrorNone" "comp_CheckEnforceSplit env2 90 = kErrorNone"
  shows "current_refresh_rate (snd (SetRefreshRate ops env1 90 False idle1 s)) = 48
       \<and> current_refresh_rate
           (snd (SetRefreshRate ops env2 90 True idle2
                   (snd (SetRefreshRate ops env1 90 False idle1 s))))
           = 90"
proof -
  let ?s1 = "snd (SetRefreshRate ops env1 90 False idle1 s)"
  have low: "lowered_rate env1 90 False idle1 s = 48"
    using assms by (simp add: lowered_rate_def supports_rates_def)
  have first: "SetRefreshRate ops env1 90 False idle1 s = refresh_rate_commit ops env1 48
       (if current_refresh_rate s \<noteq> 48
        then s\<lparr>calls := calls s @ [HW_SetRefreshRate 48, Comp_CheckEnforceSplit 48]\<rparr>
        else s)"
    using SetRefreshRate_accepted [of s 48 120 90 env1 False idle1 ops] assms
    by (simp add: low)
  have r1: "current_refresh_rate ?s1 = 48"
    by (simp only: first refresh_rate_commit_rate)
  have k: "active ?s1" "qsync_mode ?s1 = kQSyncModeNone" "\<not> disable_dyn_fps ?s1"
    using assms(1,3,4) by (simp_all add: first refresh_rate_commit_keeps)
  have p: "supports_rates (hw_panel_info ?s1) 48 120"
    unfolding first using assms(2,9) by (simp add: refresh_rate_commit_panel)
  have high: "lowered_rate env2 90 True idle2 ?s1 = 90"
    by (simp add: lowered_rate_def)
  have "SetRefreshRate ops env2 90 True idle2 ?s1 = refresh_rate_commit ops env2 90
       (if current_refresh_rate ?s1 \<noteq> 90
        then ?s1\<lparr>calls := calls ?s1 @ [HW_SetRefreshRate 90, Comp_CheckEnforceSplit 90]\<rparr>
        else ?s1)"
    using SetRefreshRate_accepted [of ?s1 48 120 90 env2 True idle2 ops] k p assms(10,11)
    by (simp add: high)
  then have "current_refresh_rate (snd (SetRefreshRate ops env2 90 True idle2 ?s1)) = 90"
    by (simp only: refresh_rate_commit_rate)
  with r1 show ?thesis by simp
qed

lemma timed_out_fields:
  "active timed_out_display" "supports_rates (hw_panel_info timed_out_display) 48 120"
  "qsync_mode timed_out_display = kQSyncModeNone" "\<not> disable_dyn_fps timed_out_display"
  "\<not> enable_qsync_idle timed_out_display" "handle_idle_timeout timed_out_display"
  "\<not> enhance_idle_time timed_out_display"
  by (simp_all add: timed_out_display_def sample_display_def sample_panel_def
      supports_rates_def)

text \<open>The theorem at the sample display after an idle timeout, with the sample collaborators.\<close>

theorem idle_clamp_then_final_rate_witness:
  "active timed_out_display \<and> supports_rates (hw_panel_info timed_out_display) 48 120
   \<and> qsync_mode timed_out_display = kQSyncModeNone
   \<and> \<not> disable_dyn_fps timed_out_display \<and> \<not> enable_qsync_idle timed_out_display
   \<and> CanLowerFps (clock_now sample_env) True timed_out_display
   \<and> hw_SetRefreshRate sample_env 48 = kErrorNone
   \<and> comp_CheckEnforceSplit sample_env 48 = kErrorNone
   \<and> supports_rates (snd (hw_GetHWPanelInfo sample_env)) 48 120
   \<and> hw_SetRefreshRate sample_env 90 = kErrorNone
   \<and> comp_CheckEnforceSplit sample_env 90 = kErrorNone
   \<and> current_refresh_rate
        (snd (SetRefreshRate sample_ops sample_env 90 False True timed_out_display)) = 48
   \<and> current_refresh_rate
        (snd (SetRefreshRate sample_ops sample_env 90 True True
           (snd (SetRefreshRate sample_ops sample_env 90 False True timed_out_display)))) = 90"
proof -
  have d: "active timed_out_display" "supports_rates (hw_panel_info timed_out_display) 48 120"
    "qsync_mode timed_out_display = kQSyncModeNone"
    "\<not> disable_dyn_fps timed_out_display" "\<not> enable_qsync_idle timed_out_display"
    "CanLowerFps (clock_now sample_env) True timed_out_display"
    by (simp_all add: timed_out_fields CanLowerFps_def)
  have e: "hw_SetRefreshRate sample_env 48 = kErrorNone"
    "comp_CheckEnforceSplit sample_env 48 = kErrorNone"
    "supports_rates (snd (hw_GetHWPanelInfo sample_env)) 48 120"
    "hw_SetRefreshRate sample_env 90 = kErrorNone"
    "comp_CheckEnforceSplit sample_env 90 = kErrorNone"
    by (simp_all add: sample_env_def supports_rates_def sample_panel_def)
  from idle_clamp_then_final_rate [OF d e, of sample_ops True] d e show ?thesis by blast
qed

text \<open>
  C8, as stated, fails: a request for the current rate is not without effect. On the
  display that idles at the panel's minimum of 48 fps with the enhanced idle time
  enabled, a final request for 48 fps meets every precondition and the target equals the
  current rate, yet the composition manager is told to process the idle timeout (the
  safe mode of line 869), whatever the collaborators answer.
\<close>

theorem SetRefreshRate_same_rate_not_noop:
  "active lowest_rate_display \<and> dynamic_fps (hw_panel_info lowest_rate_display)
   \<and> qsync_mode lowest_rate_display = kQSyncModeNone \<and> \<not> disable_dyn_fps lowest_rate_display
   \<and> min_fps (hw_panel_info lowest_rate_display) = 48
   \<and> max_fps (hw_panel_info lowest_rate_display) = 120
   \<and> current_refresh_rate lowest_rate_display = 48
   \<and> calls lowest_rate_display = []
   \<and> (\<forall>ops env. Comp_ProcessIdleTimeout
         \<in> set (calls (snd (SetRefreshRate ops env 48 True False lowest_rate_display))))"
proof -
  have f: "active lowest_rate_display" "dynamic_fps (hw_panel_info lowest_rate_display)"
    "qsync_mode lowest_rate_display = kQSyncModeNone" "\<not> disable_dyn_fps lowest_rate_display"
    "min_fps (hw_panel_info lowest_rate_display) = 48"
    "max_fps (hw_panel_info lowest_rate_display) = 120"
    "current_refresh_rate lowest_rate_display = 48" "calls lowest_rate_display = []"
    "enhance_idle_time lowest_rate_display" "handle_idle_timeout lowest_rate_display"
    by (simp_all add: lowest_rate_display_def sample_display_def sample_panel_def)
  have "SetRefreshRate ops env 48 True False lowest_rate_display
          = refresh_rate_commit ops env 48 lowest_rate_display" for ops env
    by (simp add: SetRefreshRate_def Let_def f lowered_rate_def)
  then show ?thesis
    by (simp add: f refresh_rate_commit_safe_mode)
qed

text \<open>
  C8, amended. \<^verbatim>\<open>SetRefreshRate\<close> called with every precondition for acceptance met and
  a target that, after the idle clamp, equals the current refresh rate issues no command
  that changes the device's rate or re-checks the split configuration, and leaves the
  current refresh rate as it is. It is not without effect: it runs the last part of the
  method (\<open>refresh_rate_commit\<close>: safe mode while idling at the minimum rate with the
  enhanced idle time, the deferred configuration marked dirty, \<^verbatim>\<open>ReconfigureDisplay\<close>)
  and returns what \<^verbatim>\<open>ReconfigureDisplay\<close> returns.
\<close>

theorem SetRefreshRate_same_rate:
  assumes "active s" "dynamic_fps (hw_panel_info s)" "qsync_mode s = kQSyncModeNone"
    and "\<not> disable_dyn_fps s"
    and "min_fps (hw_panel_info s) \<le> requested" "requested \<le> max_fps (hw_panel_info s)"
    and "lowered_rate env requested final_rate idle_screen s = current_refresh_rate s"
  shows "SetRefreshRate ops env requested final_rate idle_screen s
           = refresh_rate_commit ops env (current_refresh_rate s) s
       \<and> current_refresh_rate (snd (SetRefreshRate ops env requested final_rate idle_screen s))
           = current_refresh_rate s
       \<and> rate_commands (calls (snd (SetRefreshRate ops env requested final_rate idle_screen s)))
           = rate_commands (calls s)"
proof -
  have "\<not> requested < min_fps (hw_panel_info s)" "\<not> max_fps (hw_panel_info s) < requested"
    using assms(5,6) by simp_all
  then have "SetRefreshRate ops env requested final_rate idle_screen s
           = refresh_rate_commit ops env (current_refresh_rate s) s"
    using assms by (simp add: SetRefreshRate_def Let_def)
  then show ?thesis
    by (simp add: refresh_rate_commit_rate refresh_rate_commit_rate_commands)
qed

text \<open>The theorem at the sample display, asked for its current 120 fps.\<close>

theorem SetRefreshRate_same_rate_witness:
  "active sample_display \<and> dynamic_fps (hw_panel_info sample_display)
   \<and> qsync_mode sample_display = kQSyncModeNone \<and> \<not> disable_dyn_fps sample_display
   \<and> min_fps (hw_panel_info sample_display) \<le> 120
   \<and> 120 \<le> max_fps (hw_panel_info sample_display)
   \<and> lowered_rate sample_env 120 True False sample_display
       = current_refresh_rate sample_display
   \<and> SetRefreshRate sample_ops sample_env 120 True False sample_display
       = refresh_rate_commit sample_ops sample_env (current_refresh_rate sample_display)
           sample_display
   \<and> current_refresh_rate
        (snd (SetRefreshRate sample_ops sample_env 120 True False sample_display))
       = current_refresh_rate sample_display
   \<and> rate_commands
        (calls (snd (SetRefreshRate sample_ops sample_env 120 True False sample_display)))
       = rate_commands (calls sample_display)"
proof -
  have h: "active sample_display" "dynamic_fps (hw_panel_info sample_display)"
    "qsync_mode sample_display = kQSyncModeNone" "\<not> disable_dyn_fps sample_display"
    "min_fps (hw_panel_info sample_display) \<le> 120"
    "120 \<le> max_fps (hw_panel_info sample_display)"
    "lowered_rate sample_env 120 True False sample_display
       = current_refresh_rate sample_display"
    by (simp_all add: sample_display_fields lowered_rate_def CanLowerFps_def)
  from SetRefreshRate_same_rate [OF h] h show ?thesis by blast
qed


subsection \<open>The idle override of the qsync mode\<close>


lemma reconfigure_changed_first_cycle:
  "first_cycle (snd (reconfigure_changed ops env mu pu da ma pinfo s)) = first_cycle s"
  by (simp add: reconfigure_changed_def Let_def DisablePartialUpdateOneFrameInternal_def
      DppsNotifyOps_UpdateFps_def case_prod_beta)

lemma reconfigure_compare_first_cycle:
  "first_cycle (snd (reconfigure_compare ops env da ma pinfo s)) = first_cycle s"
  by (simp add: reconfigure_compare_def Let_def reconfigure_changed_first_cycle
      SetDeferredFpsConfig_def case_prod_beta)

lemma ReconfigureDisplay_first_cycle:
  "first_cycle (snd (ReconfigureDisplay ops env s)) = first_cycle s"
  by (simp add: ReconfigureDisplay_def Let_def reconfigure_compare_first_cycle case_prod_beta)

text \<open>
  The client's mode after the post-commit step: a request for OneShot is reset to None
  (on a panel with qsync support after the first cycle), any other mode is kept.
\<close>

lemma HandleQsyncPostCommit_mode:
  "qsync_mode (HandleQsyncPostCommit s) =
     (if qsync_mode s = kQsyncModeOneShot \<and> qsync_support (hw_panel_info s) \<and> \<not> first_cycle s
      then kQSyncModeNone else qsync_mode s)"
  by (simp add: HandleQsyncPostCommit_def qsync_post_branch_fields qsync_mode_branch_def
      SetQSyncMode_def)

lemma PostCommit_qsync_fields:
  "\<not> handle_idle_timeout (PostCommit_qsync ops env s)"
  "hw_panel_info (PostCommit_qsync ops env s) = hw_panel_info (snd (ReconfigureDisplay ops env s))"
  "qsync_mode (PostCommit_qsync ops env s) =
     (if qsync_mode s = kQsyncModeOneShot
         \<and> qsync_support (hw_panel_info (snd (ReconfigureDisplay ops env s)))
         \<and> \<not> first_cycle s
      then kQSyncModeNone else qsync_mode s)"
  by (simp_all add: PostCommit_qsync_def PostCommit_tail_idle PostCommit_tail_panel)
    (simp add: PostCommit_tail_def HandleQsyncPostCommit_mode ReconfigureDisplay_keeps
      ReconfigureDisplay_first_cycle)


lemma sample_reconfigured_panel:
  "hw_panel_info (snd (ReconfigureDisplay sample_ops sample_env (UpdateQsyncMode idle_display)))
     = sample_panel"
  "hw_panel_info
     (snd (ReconfigureDisplay sample_ops sample_env (UpdateQsyncMode oneshot_idle_display)))
     = sample_panel"
  "hw_panel_info
     (snd (ReconfigureDisplay sample_ops command_mode_env (UpdateQsyncMode idle_display)))
     = sample_panel\<lparr>mode := kModeCommand\<rparr>"
  by (simp_all add: ReconfigureDisplay_def reconfigure_compare_def reconfigure_changed_def
      Let_def sample_ops_def sample_env_def command_mode_env_def UpdateQsyncMode_def
      oneshot_idle_display_def idle_display_def sample_display_def sample_panel_def
      CanDeferFpsConfig_def DisablePartialUpdateOneFrameInternal_def)


text \<open>
  Why the next theorem asks for a panel outside command mode after the post-commit step:
  when \<^verbatim>\<open>ReconfigureDisplay\<close> finds the panel switched to command mode, the next frame
  computes no qsync mode and the active mode stays Continuous, while the client's mode is
  None and the idle flag is cleared.
\<close>

lemma mode_switch_keeps_override:
  "qsync_mode idle_display = kQSyncModeNone
   \<and> active_qsync_mode (UpdateQsyncMode idle_display) = kQSyncModeContinuous
   \<and> \<not> handle_idle_timeout
         (PostCommit_qsync sample_ops command_mode_env (UpdateQsyncMode idle_display))
   \<and> qsync_mode (PostCommit_qsync sample_ops command_mode_env (UpdateQsyncMode idle_display))
       = kQSyncModeNone
   \<and> active_qsync_mode
       (UpdateQsyncMode
          (PostCommit_qsync sample_ops command_mode_env (UpdateQsyncMode idle_display)))
       = kQSyncModeContinuous"
proof -
  let ?u = "UpdateQsyncMode idle_display"
  let ?t = "PostCommit_qsync sample_ops command_mode_env ?u"
  have "mode (hw_panel_info ?t) = kModeCommand"
    by (simp add: PostCommit_qsync_fields sample_reconfigured_panel)
  then have "UpdateQsyncMode ?t = ?t" by (simp add: UpdateQsyncMode_def)
  moreover have "active_qsync_mode ?t = kQSyncModeContinuous"
    by (simp add: PostCommit_qsync_def PostCommit_tail_def HandleQsyncPostCommit_def
        qsync_post_branch_def qsync_mode_branch_def SetVsyncStatus_def SetQSyncMode_def Let_def
        ReconfigureDisplay_def reconfigure_compare_def reconfigure_changed_def
        sample_ops_def sample_env_def command_mode_env_def UpdateQsyncMode_def
        idle_display_def sample_display_def sample_panel_def
        CanDeferFpsConfig_def DisablePartialUpdateOneFrameInternal_def)
  ultimately show ?thesis
    by (simp add: idle_display_fields UpdateQsyncMode_idle PostCommit_qsync_fields
        ReconfigureDisplay_keeps)
qed


subsection \<open>Binary32 rounding\<close>

lemma pow2_powr: "pow2 k = (2::real) powr (of_int k)"
proof (cases "0 \<le> k")
  case True
  then show ?thesis by (simp add: pow2_def powr_realpow [symmetric])
next
  case False
  then have "(2::real) powr (of_int k) = 1 / 2 powr (of_int (- k))"
    by (simp add: powr_minus divide_inverse)
  also have "\<dots> = 1 / 2 ^ nat (- k)" using False by (simp add: powr_realpow [symmetric])
  finally show ?thesis using False by (simp add: pow2_def)
qed

lemma pow2_pos: "0 < pow2 k"
  by (simp add: pow2_powr)

lemma pow2_add: "pow2 (a + b) = pow2 a * pow2 b"
  by (simp add: pow2_powr powr_add)

text \<open>\<open>ilog2\<close> finds the binade of a positive number.\<close>

lemma ilog2_bounds:
  assumes "0 < a"
  shows "pow2 (ilog2 a) \<le> a" "a < pow2 (ilog2 a + 1)"
proof -
  show "pow2 (ilog2 a) \<le> a"
  proof (cases "1 \<le> a")
    case True
    then have n: "0 < \<lfloor>a\<rfloor>" by simp
    from bitlen_bounds [OF n] have "2 ^ nat (bitlen \<lfloor>a\<rfloor> - 1) \<le> \<lfloor>a\<rfloor>" by simp
    then have "(of_int (2 ^ nat (bitlen \<lfloor>a\<rfloor> - 1)) :: real) \<le> of_int \<lfloor>a\<rfloor>"
      by (simp only: of_int_le_iff)
    then have "(2::real) ^ nat (bitlen \<lfloor>a\<rfloor> - 1) \<le> a" by (simp add: le_floor_iff)
    moreover have "bitlen \<lfloor>a\<rfloor> \<noteq> 0" using n by (simp add: bitlen_eq_zero_iff)
    then have "0 \<le> bitlen \<lfloor>a\<rfloor> - 1" using bitlen_nonneg [of "\<lfloor>a\<rfloor>"] by linarith
    ultimately show ?thesis using True by (simp add: ilog2_def pow2_def)
  next
    case False
    then have a1: "a < 1" by simp
    define y where "y = 1 / a"
    have y: "1 < y" using assms a1 by (simp add: y_def)
    define m where "m = \<lceil>y\<rceil> - 1"
    have m: "0 < m" using y unfolding m_def by linarith
    have my: "of_int m < y" "y \<le> of_int m + 1" unfolding m_def by linarith+
    define k where "k = bitlen m"
    from bitlen_bounds [OF m] have b: "2 ^ nat (k - 1) \<le> m" "m < 2 ^ nat k"
      by (simp_all add: k_def)
    have "k \<noteq> 0" using m by (simp add: k_def bitlen_eq_zero_iff)
    then have kpos: "0 < k" using bitlen_nonneg [of m] by (simp add: k_def)
    have "m + 1 \<le> 2 ^ nat k" using b(2) by simp
    then have "(of_int (m + 1) :: real) \<le> of_int (2 ^ nat k)" by (simp only: of_int_le_iff)
    then have "y \<le> 2 ^ nat k" using my(2) by simp
    then have "1 / 2 ^ nat k \<le> 1 / y" using y by (simp add: frac_le)
    then have "1 / 2 ^ nat k \<le> a" using assms by (simp add: y_def)
    moreover have "ilog2 a = - k" using False by (simp add: ilog2_def k_def m_def y_def)
    ultimately show ?thesis using kpos by (simp add: pow2_def)
  qed
  show "a < pow2 (ilog2 a + 1)"
  proof (cases "1 \<le> a")
    case True
    then have n: "0 < \<lfloor>a\<rfloor>" by simp
    from bitlen_bounds [OF n] have "\<lfloor>a\<rfloor> < 2 ^ nat (bitlen \<lfloor>a\<rfloor>)" by simp
    then have "\<lfloor>a\<rfloor> + 1 \<le> 2 ^ nat (bitlen \<lfloor>a\<rfloor>)" by simp
    then have "(of_int (\<lfloor>a\<rfloor> + 1) :: real) \<le> of_int (2 ^ nat (bitlen \<lfloor>a\<rfloor>))"
      by (simp only: of_int_le_iff)
    then have "a < 2 ^ nat (bitlen \<lfloor>a\<rfloor>)" by simp linarith
    moreover have "0 \<le> bitlen \<lfloor>a\<rfloor>" by (rule bitlen_nonneg)
    ultimately show ?thesis using True by (simp add: ilog2_def pow2_def)
  next
    case False
    then have a1: "a < 1" by simp
    define y where "y = 1 / a"
    have y: "1 < y" using assms a1 by (simp add: y_def)
    define m where "m = \<lceil>y\<rceil> - 1"
    have m: "0 < m" using y unfolding m_def by linarith
    have my: "of_int m < y" "y \<le> of_int m + 1" unfolding m_def by linarith+
    define k where "k = bitlen m"
    from bitlen_bounds [OF m] have b: "2 ^ nat (k - 1) \<le> m" "m < 2 ^ nat k"
      by (simp_all add: k_def)
    have "k \<noteq> 0" using m by (simp add: k_def bitlen_eq_zero_iff)
    then have kpos: "0 < k" using bitlen_nonneg [of m] by (simp add: k_def)
    have "(of_int (2 ^ nat (k - 1)) :: real) \<le> of_int m"
      using b(1) by (simp only: of_int_le_iff)
    then have "(2::real) ^ nat (k - 1) \<le> of_int m" by simp
    with my(1) have lt: "2 ^ nat (k - 1) < y" by linarith
    have "1 / y < 1 / 2 ^ nat (k - 1)" using lt by (simp add: frac_less2)
    then have alt: "a < 1 / 2 ^ nat (k - 1)" using assms by (simp add: y_def)
    have il: "ilog2 a = - k" using False by (simp add: ilog2_def k_def m_def y_def)
    show ?thesis
    proof (cases "k = 1")
      case True
      then show ?thesis using alt il by (simp add: pow2_def)
    next
      case False
      then have "1 < k" using kpos by simp
      then have "nat (- (- k + 1)) = nat (k - 1)" "\<not> 0 \<le> - k + 1" by simp_all
      then show ?thesis using alt il by (simp add: pow2_def)
    qed
  qed
qed

lemma rne_error: "\<bar>of_int (rne x) - x\<bar> \<le> 1/2"
  unfolding rne_def Let_def by (auto split: if_splits)

text \<open>
  The error of one rounding: a number of magnitude up to \<open>2 ^ 100\<close> is rounded to a
  finite number, with a relative error of at most \<open>2\<close> to the \<open>- 24\<close>, or an absolute error
  of at most \<open>2\<close> to the \<open>- 150\<close> for a subnormal result.
\<close>

lemma round32_error:
  assumes "\<bar>x\<bar> \<le> 2 ^ 100"
  shows "\<exists>y. round32 x = Finite y \<and> \<bar>y - x\<bar> \<le> \<bar>x\<bar> / 2 ^ 24 + 1 / 2 ^ 150"
proof (cases "x = 0")
  case True
  then show ?thesis by (simp add: round32_def)
next
  case False
  then have pos: "0 < \<bar>x\<bar>" by simp
  define k where "k = ilog2 \<bar>x\<bar>"
  define e where "e = max k (- 126) - 23"
  define y where "y = of_int (rne (x / pow2 e)) * pow2 e"
  note kb = ilog2_bounds [OF pos, folded k_def]
  have "\<bar>y - x\<bar> = \<bar>of_int (rne (x / pow2 e)) - x / pow2 e\<bar> * pow2 e"
  proof -
    have "y - x = (of_int (rne (x / pow2 e)) - x / pow2 e) * pow2 e"
      using pow2_pos [of e] by (simp add: y_def field_simps)
    then show ?thesis using pow2_pos [of e] by (simp add: abs_mult)
  qed
  also have "\<dots> \<le> 1/2 * pow2 e"
    using rne_error [of "x / pow2 e"] pow2_pos [of e] by (intro mult_right_mono) simp_all
  finally have err: "\<bar>y - x\<bar> \<le> pow2 e / 2" by simp
  have e_le: "pow2 e / 2 \<le> \<bar>x\<bar> / 2 ^ 24 + 1 / 2 ^ 150"
  proof (cases "- 126 \<le> k")
    case True
    then have "e = k + (- 23)" by (simp add: e_def)
    then have "pow2 e = pow2 k * pow2 (- 23)" by (simp only: pow2_add)
    also have "\<dots> \<le> \<bar>x\<bar> * pow2 (- 23)" using kb(1) pow2_pos [of "- 23"] by simp
    finally have "pow2 e / 2 \<le> \<bar>x\<bar> * pow2 (- 23) / 2" by simp
    also have "\<dots> = \<bar>x\<bar> / 2 ^ 24" by (simp add: pow2_def)
    finally show ?thesis by simp
  next
    case False
    then have "e = - 149" by (simp add: e_def)
    then have "pow2 e / 2 = 1 / 2 ^ 150" by (simp add: pow2_def)
    then show ?thesis by simp
  qed
  have "\<bar>y\<bar> \<le> \<bar>x\<bar> + \<bar>y - x\<bar>" by simp
  also have "\<dots> \<le> \<bar>x\<bar> + (\<bar>x\<bar> / 2 ^ 24 + 1 / 2 ^ 150)" using err e_le by simp
  also have "\<dots> \<le> 2 ^ 100 + (2 ^ 100 / 2 ^ 24 + 1 / 2 ^ 150)" using assms by simp
  also have "\<dots> < 2 ^ 128" by simp
  finally have fin: "\<not> 2 ^ 128 \<le> \<bar>y\<bar>" by simp
  have "round32 x = Finite y"
    using False fin by (simp add: round32_def Let_def y_def e_def k_def)
  then show ?thesis using err e_le by auto
qed

lemma round32_small:
  assumes "\<bar>x\<bar> \<le> c" "c \<le> 2 ^ 100"
  obtains y where "round32 x = Finite y" "\<bar>y - x\<bar> \<le> c / 16777216 + 1 / 2 ^ 150"
proof -
  from assms have "\<bar>x\<bar> \<le> 2 ^ 100" by simp
  from round32_error [OF this] obtain y
    where y: "round32 x = Finite y" "\<bar>y - x\<bar> \<le> \<bar>x\<bar> / 2 ^ 24 + 1 / 2 ^ 150" by blast
  have "\<bar>x\<bar> / 2 ^ 24 \<le> c / 2 ^ 24" using assms(1) by (simp add: divide_right_mono)
  with y(2) have "\<bar>y - x\<bar> \<le> c / 2 ^ 24 + 1 / 2 ^ 150" by linarith
  then have "\<bar>y - x\<bar> \<le> c / 16777216 + 1 / 2 ^ 150" by simp
  with y(1) show ?thesis by (rule that)
qed

lemmas float_eval =
  round32_def Let_def ilog2_def rne_def pow2_def compute_bitlen fsub_def int_to_float_def


subsection \<open>Panel brightness\<close>

text \<open>Dropping the fraction moves a number towards zero by less than one.\<close>

lemma truncation_bounds:
  fixes x :: real
  defines "n \<equiv> (if 0 \<le> x then \<lfloor>x\<rfloor> else \<lceil>x\<rceil>)"
  shows "\<bar>of_int n\<bar> \<le> \<bar>x\<bar>" "\<bar>x - of_int n\<bar> \<le> 1"
  unfolding n_def by (simp_all; linarith)+

lemma float_to_int_defined:
  assumes "\<bar>x\<bar> \<le> 2 ^ 30"
  shows "float_to_int (Finite x) = Some (if 0 \<le> x then \<lfloor>x\<rfloor> else \<lceil>x\<rceil>)"
proof -
  define n where "n = (if 0 \<le> x then \<lfloor>x\<rfloor> else \<lceil>x\<rceil>)"
  have "\<bar>of_int n\<bar> \<le> \<bar>x\<bar>" unfolding n_def by (rule truncation_bounds)
  with assms have "\<bar>(of_int n :: real)\<bar> \<le> 2 ^ 30" by linarith
  then have "\<bar>n\<bar> \<le> 2 ^ 30"
    by (metis of_int_abs of_int_le_iff of_int_numeral of_int_power)
  then have "- (2 ^ 31) \<le> n \<and> n < 2 ^ 31" by (simp add: abs_le_iff)
  then show ?thesis by (simp add: n_def Let_def)
qed

text \<open>A level other than 0 is converted to a float other than 0.\<close>

lemma int_to_float_nonzero:
  assumes "n \<noteq> 0" "int_to_float n = Finite L" "\<bar>L - of_int n\<bar> \<le> \<bar>of_int n\<bar> / 2 ^ 24 + 1 / 2 ^ 150"
  shows "L \<noteq> 0"
proof
  assume "L = 0"
  with assms(3) have "\<bar>(of_int n :: real)\<bar> \<le> \<bar>of_int n\<bar> / 2 ^ 24 + 1 / 2 ^ 150" by simp
  moreover have "1 \<le> \<bar>(of_int n :: real)\<bar>" using assms(1) by (simp flip: of_int_abs)
  ultimately show False by simp
qed

text \<open>
  The arithmetic of the round trip in binary32, on a panel whose bounds \<open>mn\<close> and \<open>mx\<close>
  satisfy \<open>0 \<le> mn\<close>, \<open>mn + 1 \<le> mx\<close> and \<open>mx \<le> 2 ^ 24\<close>: every operation has a finite
  result, the conversion to \<^verbatim>\<open>int\<close> is defined, and the quotient computed from the level
  and the remainder differs from the brightness by at most \<open>mx / (mx - mn) / 2 ^ 21\<close>.
  Five of the eight roundings contribute an error of about \<open>mx / 2 ^ 24\<close> each to the
  dividend; \<open>U\<close> is that unit and \<open>tau\<close> the error of a subnormal result.
\<close>

lemma round_trip_error:
  fixes b mn mx :: real
  assumes b: "0 \<le> b" "b \<le> 1" and mn: "0 \<le> mn" and mx: "mn + 1 \<le> mx" "mx \<le> 2 ^ 24"
  shows "\<exists>level rem L r.
           brightness_level (Finite b) (Finite mx) (Finite mn) = Some (level, Finite rem)
         \<and> int_to_float level = Finite L \<and> (level \<noteq> 0 \<longrightarrow> L \<noteq> 0)
         \<and> fdiv (fsub (fadd (Finite L) (Finite rem)) (Finite mn))
                 (fsub (Finite mx) (Finite mn)) = Finite r
         \<and> \<bar>r - b\<bar> \<le> mx / (mx - mn) / 2 ^ 21"
proof -
  define tau :: real where "tau = 1 / 2 ^ 150"
  have tau: "0 < tau" "tau \<le> 1 / 281474976710656" by (simp_all add: tau_def)
  define Dx where "Dx = mx - mn"
  define U where "U = mx / 16777216"
  have Dx: "1 \<le> Dx" "Dx + mn = mx" using mn mx by (simp_all add: Dx_def)
  have U: "mx = 16777216 * U" by (simp add: U_def)
  have mx24: "mx \<le> 16777216" using mx(2) by simp
  have Upos: "0 < U" using Dx mn by (simp add: U_def)
  have big: "c \<le> 2 * mx \<Longrightarrow> c \<le> 2 ^ 100" for c using mx24 by simp
  \<comment> \<open>the difference of the bounds\<close>
  have "\<bar>Dx\<bar> \<le> Dx" using Dx(1) by simp
  moreover have "Dx \<le> 2 ^ 100" using Dx mn by (intro big) linarith
  ultimately obtain D
    where D: "round32 Dx = Finite D" "\<bar>D - Dx\<bar> \<le> Dx / 16777216 + tau"
    unfolding tau_def by (rule round32_small)
  have Dlo: "Dx * (8388607 / 8388608) \<le> D" and Dhi: "D \<le> Dx + 2 * U"
    using D(2) Dx mn U tau by argo+
  have Dpos: "0 < D" using Dlo Dx(1) by argo
  have sub: "fsub (Finite mx) (Finite mn) = Finite D" using D(1) by (simp add: fsub_def Dx_def)
  \<comment> \<open>the product\<close>
  have bD: "0 \<le> b * D" "b * D \<le> D"
    using b Dpos by (simp_all add: mult_left_le_one_le)
  have "\<bar>b * D\<bar> \<le> Dx + 2 * U" using bD Dhi by argo
  moreover have "Dx + 2 * U \<le> 2 ^ 100" using Dx mn U by (intro big) linarith
  ultimately obtain p
    where p: "round32 (b * D) = Finite p" "\<bar>p - b * D\<bar> \<le> (Dx + 2 * U) / 16777216 + tau"
    unfolding tau_def by (rule round32_small)
  \<comment> \<open>the sum\<close>
  have "\<bar>p + mn\<bar> \<le> mx + 4 * U" using p(2) bD Dhi Dx mn U tau by argo
  moreover have "mx + 4 * U \<le> 2 ^ 100" using Dx mn U by (intro big) linarith
  ultimately obtain t
    where t: "round32 (p + mn) = Finite t" "\<bar>t - (p + mn)\<bar> \<le> (mx + 4 * U) / 16777216 + tau"
    unfolding tau_def by (rule round32_small)
  have tb: "\<bar>t\<bar> \<le> mx + 6 * U" using t(2) p(2) bD Dhi Dx mn U tau by argo
  \<comment> \<open>the level\<close>
  define level where "level = (if 0 \<le> t then \<lfloor>t\<rfloor> else \<lceil>t\<rceil>)"
  have "\<bar>t\<bar> \<le> 2 ^ 30" using tb U mx24 by simp
  then have cast: "float_to_int (Finite t) = Some level"
    unfolding level_def by (rule float_to_int_defined)
  have lv: "\<bar>of_int level\<bar> \<le> \<bar>t\<bar>" "\<bar>t - of_int level\<bar> \<le> 1"
    unfolding level_def by (rule truncation_bounds)+
  have "\<bar>(of_int level :: real)\<bar> \<le> 2 ^ 100" using lv(1) tb U mx24 by simp
  from round32_error [OF this] obtain L
    where L: "round32 (of_int level) = Finite L"
      "\<bar>L - of_int level\<bar> \<le> \<bar>of_int level\<bar> / 2 ^ 24 + 1 / 2 ^ 150" by blast
  have itf: "int_to_float level = Finite L" using L(1) by (simp add: int_to_float_def)
  have nz: "level \<noteq> 0 \<longrightarrow> L \<noteq> 0" using int_to_float_nonzero [OF _ itf L(2)] by blast
  have "\<bar>L - of_int level\<bar> \<le> \<bar>of_int level\<bar> / 16777216 + tau"
    using L(2) by (simp add: tau_def)
  then have L2: "\<bar>L - of_int level\<bar> \<le> 2 * U" using lv(1) tb Dx mn U tau by argo
  \<comment> \<open>the remainder\<close>
  have "\<bar>t - L\<bar> \<le> 1 + 2 * U" using lv(2) L2 by argo
  moreover have "1 + 2 * U \<le> 2 ^ 100" using Dx mn U by (intro big) linarith
  ultimately obtain R
    where R: "round32 (t - L) = Finite R" "\<bar>R - (t - L)\<bar> \<le> (1 + 2 * U) / 16777216 + tau"
    unfolding tau_def by (rule round32_small)
  have level: "brightness_level (Finite b) (Finite mx) (Finite mn) = Some (level, Finite R)"
    using sub p(1) t(1) cast itf R(1) by (simp add: brightness_level_def fsub_def)
  \<comment> \<open>the level and the remainder are added\<close>
  have "\<bar>L + R\<bar> \<le> mx + 8 * U" using R(2) tb Dx mn U tau by argo
  moreover have "mx + 8 * U \<le> 2 ^ 100" using Dx mn U by (intro big) linarith
  ultimately obtain a
    where a: "round32 (L + R) = Finite a" "\<bar>a - (L + R)\<bar> \<le> (mx + 8 * U) / 16777216 + tau"
    unfolding tau_def by (rule round32_small)
  \<comment> \<open>the lower bound is subtracted\<close>
  have "\<bar>a - mn\<bar> \<le> mx + 12 * U" using a(2) R(2) t(2) p(2) bD Dhi Dx mn U tau by argo
  moreover have "mx + 12 * U \<le> 2 ^ 100" using Dx mn U by (intro big) linarith
  ultimately obtain q
    where q: "round32 (a - mn) = Finite q"
      "\<bar>q - (a - mn)\<bar> \<le> (mx + 12 * U) / 16777216 + tau"
    unfolding tau_def by (rule round32_small)
  have E: "\<bar>q - b * D\<bar> \<le> 6 * U * (8388607 / 8388608)"
    using q(2) a(2) R(2) t(2) p(2) Dx mn U tau by argo
  \<comment> \<open>the quotient\<close>
  define K where "K = mx / Dx"
  have K: "1 \<le> K" "K \<le> 2 ^ 24" "U / Dx = K / 16777216"
    using Dx mn mx(2) by (simp_all add: K_def U_def field_simps)
  define x where "x = q / D"
  have "x - b = (q - b * D) / D" using Dpos by (simp add: x_def field_simps)
  then have "\<bar>x - b\<bar> = \<bar>q - b * D\<bar> / D" using Dpos by simp
  also have "\<dots> \<le> (6 * U * (8388607 / 8388608)) / (Dx * (8388607 / 8388608))"
    using E Dlo Dx(1) Upos by (intro frac_le) simp_all
  also have "\<dots> = 6 * (U / Dx)" by simp
  also have "\<dots> = 6 * (K / 16777216)" by (simp only: K(3))
  finally have Q: "\<bar>x - b\<bar> \<le> 6 * (K / 16777216)" .
  have "\<bar>x\<bar> \<le> 1 + 6 * (K / 16777216)" using Q b by argo
  moreover have "1 + 6 * (K / 16777216) \<le> 2 ^ 100" using K(2) by simp
  ultimately obtain r
    where r: "round32 x = Finite r"
      "\<bar>r - x\<bar> \<le> (1 + 6 * (K / 16777216)) / 16777216 + tau"
    unfolding tau_def by (rule round32_small)
  have quot: "fdiv (fsub (fadd (Finite L) (Finite R)) (Finite mn)) (fsub (Finite mx) (Finite mn))
                = Finite r"
    using sub a(1) q(1) r(1) Dpos by (simp add: fsub_def x_def)
  have "\<bar>r - b\<bar> \<le> 8 * (K / 16777216)" using r(2) Q K(1) tau by argo
  also have "\<dots> = K / 2 ^ 21" by simp
  also have "\<dots> = mx / (mx - mn) / 2 ^ 21" by (simp only: K_def Dx_def)
  finally have "\<bar>r - b\<bar> \<le> mx / (mx - mn) / 2 ^ 21" .
  with level itf nz quot show ?thesis by blast
qed

text \<open>
  A brightness between 0 and 1 on a panel whose lower bound is below the upper one: the
  hardware is given the computed level, and when it accepts it the remainder is stored.
\<close>

lemma SetPanelBrightness_accepted:
  assumes "0 \<le> b" "b \<le> 1"
    and "panel_min_brightness (hw_panel_info s) = Finite mn"
    and "panel_max_brightness (hw_panel_info s) = Finite mx" "mn < mx"
    and "brightness_level (Finite b) (Finite mx) (Finite mn) = Some (level, rem)"
    and "hw_result level = kErrorNone"
  shows "SetPanelBrightness hw_result (Finite b) s =
           Some (kErrorNone,
                 s\<lparr>calls := calls s @ [HW_SetPanelBrightness level], level_remainder := rem\<rparr>)"
  using assms by (simp add: SetPanelBrightness_def Let_def)

lemma GetPanelBrightnessFromLevel_zero:
  "GetPanelBrightnessFromLevel (Finite 0) s = Inr (Finite (- 1))"
  "GetPanelBrightnessFromLevel (int_to_float 0) s = Inr (Finite (- 1))"
  by (simp_all add: GetPanelBrightnessFromLevel_def int_to_float_def round32_def)

lemma GetPanelBrightnessFromLevel_finite:
  assumes "panel_min_brightness (hw_panel_info s) = Finite mn"
    and "panel_max_brightness (hw_panel_info s) = Finite mx" "mn < mx"
    and "level_remainder s = Finite rem" "L \<noteq> 0"
  shows "GetPanelBrightnessFromLevel (Finite L) s =
           (if mn \<le> L \<and> L \<le> mx
            then Inr (fdiv (fsub (fadd (Finite L) (Finite rem)) (Finite mn))
                           (fsub (Finite mx) (Finite mn)))
            else Inl kErrorDriverData)"
  using assms by (simp add: GetPanelBrightnessFromLevel_def Let_def)

text \<open>The brightness 0.5 on a panel from 0 to 255, and the level 127 read back.\<close>

lemma brightness_level_half:
  "brightness_level (Finite (1/2)) (Finite 255) (Finite 0) = Some (127, Finite (1/2))"
  by (simp add: brightness_level_def float_eval)

lemma int_to_float_127: "int_to_float 127 = Finite 127"
  by (simp add: float_eval)

lemma read_back_half:
  "fdiv (fsub (fadd (Finite 127) (Finite (1/2))) (Finite 0)) (fsub (Finite 255) (Finite 0))
     = Finite (1/2)"
  by (simp add: float_eval)

text \<open>
  The brightness \<^verbatim>\<open>0.01f\<close> (the binary32 number nearest to 0.01) on a panel from 0 to 100:
  the product is rounded to 1, so the level is 1 and the remainder 0, and the level 1 is
  read back as \<^verbatim>\<open>0.01f\<close>.
\<close>

lemma brightness_one_percent:
  "round32 (1/100) = Finite (5368709/536870912)"
  "brightness_level (Finite (5368709/536870912)) (Finite 100) (Finite 0) = Some (1, Finite 0)"
  "fdiv (fsub (fadd (int_to_float 1) (Finite 0)) (Finite 0)) (fsub (Finite 100) (Finite 0))
     = Finite (5368709/536870912)"
  by (simp_all add: brightness_level_def float_eval)

text \<open>
  C5, as stated, fails: the level 0 is read back as "off". On the sample panel (minimum
  0, maximum 255) the brightness 0 is accepted and gives the level 0 with the remainder
  0, and the level 0 with that remainder is converted to the brightness -1, not 0.
\<close>

theorem brightness_zero_reads_off:
  "panel_min_brightness (hw_panel_info sample_display) = Finite 0
   \<and> panel_max_brightness (hw_panel_info sample_display) = Finite 255
   \<and> SetPanelBrightness hw_accepts (Finite 0) sample_display
       = Some (kErrorNone,
               sample_display\<lparr>calls := [HW_SetPanelBrightness 0], level_remainder := Finite 0\<rparr>)
   \<and> GetPanelBrightnessFromLevel (int_to_float 0)
        (sample_display\<lparr>calls := [HW_SetPanelBrightness 0], level_remainder := Finite 0\<rparr>)
       = Inr (Finite (- 1))"
  by (simp add: sample_display_fields SetPanelBrightness_def GetPanelBrightnessFromLevel_zero
      brightness_level_def float_eval hw_accepts_def)

text \<open>
  C5, amended. The arithmetic is binary32 arithmetic. For a brightness \<open>b\<close> between 0 and
  1 on a panel whose bounds satisfy \<open>0 \<le> mn\<close>, \<open>mn + 1 \<le> mx\<close> and \<open>mx \<le> 2 ^ 24\<close>, a level
  and a remainder are computed (no conversion is undefined), and when the hardware
  accepts the level the call succeeds and stores the remainder. Then, with the level
  converted back with the stored remainder:
  for the brightness 0.5 on a panel from 0 to 255 the level is 127, the remainder 0.5 and
  the brightness read back 0.5;
  when the level is not 0 and lies between the bounds, the brightness read back differs
  from \<open>b\<close> by at most \<open>mx / (mx - mn) / 2 ^ 21\<close>;
  when the level is 0, the brightness read back is -1 ("off");
  when the level is not 0 and outside the bounds, the conversion fails.
\<close>

theorem brightness_round_trip:
  assumes "0 \<le> b" "b \<le> 1"
    and "panel_min_brightness (hw_panel_info s) = Finite mn"
    and "panel_max_brightness (hw_panel_info s) = Finite mx"
    and "0 \<le> mn" "mn + 1 \<le> mx" "mx \<le> 2 ^ 24"
  shows "\<exists>level rem L.
           brightness_level (Finite b) (Finite mx) (Finite mn) = Some (level, Finite rem)
         \<and> int_to_float level = Finite L
         \<and> (hw_result level = kErrorNone \<longrightarrow>
              SetPanelBrightness hw_result (Finite b) s =
                Some (kErrorNone,
                      s\<lparr>calls := calls s @ [HW_SetPanelBrightness level],
                        level_remainder := Finite rem\<rparr>))
         \<and> (b = 1/2 \<and> mn = 0 \<and> mx = 255 \<longrightarrow>
              level = 127 \<and> rem = 1/2
              \<and> GetPanelBrightnessFromLevel (int_to_float level)
                   (s\<lparr>calls := calls s @ [HW_SetPanelBrightness level],
                     level_remainder := Finite rem\<rparr>) = Inr (Finite (1/2)))
         \<and> (level \<noteq> 0 \<and> mn \<le> L \<and> L \<le> mx \<longrightarrow>
              (\<exists>r. GetPanelBrightnessFromLevel (int_to_float level)
                      (s\<lparr>calls := calls s @ [HW_SetPanelBrightness level],
                        level_remainder := Finite rem\<rparr>) = Inr (Finite r)
                 \<and> \<bar>r - b\<bar> \<le> mx / (mx - mn) / 2 ^ 21))
         \<and> (level = 0 \<longrightarrow>
              GetPanelBrightnessFromLevel (int_to_float level)
                (s\<lparr>calls := calls s @ [HW_SetPanelBrightness level],
                  level_remainder := Finite rem\<rparr>) = Inr (Finite (- 1)))
         \<and> (level \<noteq> 0 \<and> \<not> (mn \<le> L \<and> L \<le> mx) \<longrightarrow>
              GetPanelBrightnessFromLevel (int_to_float level)
                (s\<lparr>calls := calls s @ [HW_SetPanelBrightness level],
                  level_remainder := Finite rem\<rparr>) = Inl kErrorDriverData)"
proof -
  from round_trip_error [OF assms(1,2,5,6,7)] obtain level rem L r
    where lev: "brightness_level (Finite b) (Finite mx) (Finite mn) = Some (level, Finite rem)"
      and L: "int_to_float level = Finite L" and nz: "level \<noteq> 0 \<longrightarrow> L \<noteq> 0"
      and quot: "fdiv (fsub (fadd (Finite L) (Finite rem)) (Finite mn))
                   (fsub (Finite mx) (Finite mn)) = Finite r"
      and err: "\<bar>r - b\<bar> \<le> mx / (mx - mn) / 2 ^ 21"
    by blast
  let ?s = "s\<lparr>calls := calls s @ [HW_SetPanelBrightness level], level_remainder := Finite rem\<rparr>"
  have lt: "mn < mx" using assms(6) by simp
  have panel: "panel_min_brightness (hw_panel_info ?s) = Finite mn"
    "panel_max_brightness (hw_panel_info ?s) = Finite mx" "level_remainder ?s = Finite rem"
    using assms(3,4) by simp_all
  have set: "hw_result level = kErrorNone \<longrightarrow>
               SetPanelBrightness hw_result (Finite b) s = Some (kErrorNone, ?s)"
    using SetPanelBrightness_accepted [OF assms(1,2,3,4) lt lev] by blast
  have get: "GetPanelBrightnessFromLevel (int_to_float level) ?s =
               (if mn \<le> L \<and> L \<le> mx then Inr (Finite r) else Inl kErrorDriverData)"
    if "level \<noteq> 0"
  proof -
    from that nz have "L \<noteq> 0" by simp
    from GetPanelBrightnessFromLevel_finite [OF panel(1,2) lt panel(3) this]
    show ?thesis by (simp only: L quot)
  qed
  have half: "b = 1/2 \<and> mn = 0 \<and> mx = 255 \<longrightarrow>
                level = 127 \<and> rem = 1/2
                \<and> GetPanelBrightnessFromLevel (int_to_float level) ?s = Inr (Finite (1/2))"
  proof
    assume "b = 1/2 \<and> mn = 0 \<and> mx = 255"
    then have h: "b = 1/2" "mn = 0" "mx = 255" by blast+
    from lev have "Some (127, Finite (1/2)) = Some (level, Finite rem)"
      by (simp only: h brightness_level_half)
    then have v: "level = 127" "rem = 1/2" by simp_all
    from L have l: "L = 127" by (simp only: v int_to_float_127) simp
    from quot have "Finite (1/2) = Finite r" by (simp only: v h l read_back_half)
    then have r: "r = 1/2" by simp
    have nz: "level \<noteq> 0" and inside: "mn \<le> L \<and> L \<le> mx" by (simp_all add: v(1) h l)
    from get [OF nz] inside
    have "GetPanelBrightnessFromLevel (int_to_float level) ?s = Inr (Finite r)"
      by (simp only: if_True simp_thms)
    then have "GetPanelBrightnessFromLevel (int_to_float level) ?s = Inr (Finite (1/2))"
      by (simp only: r)
    with v show "level = 127 \<and> rem = 1/2
                \<and> GetPanelBrightnessFromLevel (int_to_float level) ?s = Inr (Finite (1/2))"
      by blast
  qed
  have zero: "level = 0 \<longrightarrow>
                GetPanelBrightnessFromLevel (int_to_float level) ?s = Inr (Finite (- 1))"
    by (simp add: GetPanelBrightnessFromLevel_zero)
  have inside: "level \<noteq> 0 \<and> mn \<le> L \<and> L \<le> mx \<longrightarrow>
                  (\<exists>r. GetPanelBrightnessFromLevel (int_to_float level) ?s = Inr (Finite r)
                     \<and> \<bar>r - b\<bar> \<le> mx / (mx - mn) / 2 ^ 21)"
    using get err by auto
  have outside: "level \<noteq> 0 \<and> \<not> (mn \<le> L \<and> L \<le> mx) \<longrightarrow>
                   GetPanelBrightnessFromLevel (int_to_float level) ?s = Inl kErrorDriverData"
    using get by auto
  from lev L set half inside zero outside show ?thesis by blast
qed

text \<open>
  The theorem at the brightness 0.5 on the sample panel, with a hardware interface that
  accepts every level: level 127, remainder 0.5, and 0.5 read back.
\<close>

theorem brightness_round_trip_witness:
  "(0::real) \<le> 1/2 \<and> (1/2::real) \<le> 1
   \<and> panel_min_brightness (hw_panel_info sample_display) = Finite 0
   \<and> panel_max_brightness (hw_panel_info sample_display) = Finite 255
   \<and> (0::real) \<le> 0 \<and> (0::real) + 1 \<le> 255 \<and> (255::real) \<le> 2 ^ 24
   \<and> hw_accepts 127 = kErrorNone
   \<and> brightness_level (Finite (1/2)) (Finite 255) (Finite 0) = Some (127, Finite (1/2))
   \<and> SetPanelBrightness hw_accepts (Finite (1/2)) sample_display
       = Some (kErrorNone,
               sample_display\<lparr>calls := calls sample_display @ [HW_SetPanelBrightness 127],
                              level_remainder := Finite (1/2)\<rparr>)
   \<and> GetPanelBrightnessFromLevel (int_to_float 127)
        (sample_display\<lparr>calls := calls sample_display @ [HW_SetPanelBrightness 127],
                       level_remainder := Finite (1/2)\<rparr>) = Inr (Finite (1/2))"
proof -
  have h: "(0::real) \<le> 1/2" "(1/2::real) \<le> 1"
    "panel_min_brightness (hw_panel_info sample_display) = Finite 0"
    "panel_max_brightness (hw_panel_info sample_display) = Finite 255"
    "(0::real) \<le> 0" "(0::real) + 1 \<le> 255" "(255::real) \<le> 2 ^ 24"
    by (simp_all add: sample_display_fields)
  have a: "hw_accepts 127 = kErrorNone" by (simp add: hw_accepts_def)
  from brightness_round_trip [OF h, of hw_accepts] obtain level rem
    where lev: "brightness_level (Finite (1/2)) (Finite 255) (Finite 0)
                  = Some (level, Finite rem)"
      and set: "hw_accepts level = kErrorNone \<longrightarrow>
             SetPanelBrightness hw_accepts (Finite (1/2)) sample_display =
               Some (kErrorNone,
                     sample_display\<lparr>calls := calls sample_display @ [HW_SetPanelBrightness level],
                                    level_remainder := Finite rem\<rparr>)"
      and v: "level = 127" "rem = 1/2"
      and get: "GetPanelBrightnessFromLevel (int_to_float level)
                (sample_display\<lparr>calls := calls sample_display @ [HW_SetPanelBrightness level],
                               level_remainder := Finite rem\<rparr>) = Inr (Finite (1/2))"
    by blast
  note lev [unfolded v] set [unfolded v] get [unfolded v]
  with h a show ?thesis by blast
qed
subsection \<open>The Prepare fast path\<close>

lemma surface_damage_scan_True:
  "surface_damage_scan v d ls \<Longrightarrow>
     (\<forall>l \<in> set ls. update_mask l = 0 \<or> update_mask l = ucast v)
     \<and> (d \<or> (\<exists>l \<in> set ls. update_mask l \<noteq> 0 \<and> update_mask l = ucast v))"
  by (induction ls arbitrary: d) (auto split: if_splits)

lemma CanCompareFrameROI_True:
  assumes "fst (CanCompareFrameROI env ls s)"
  shows "\<not> needs_validate s" "\<not> comp_IsSafeMode env" "\<not> stack_needs_validate ls"
    "partial_update (hw_panel_info s)" "left_roi_count (hw_panel_info s) = 1"
    "\<not> geometry_changed (flags ls)" "\<not> skip_present (flags ls)"
    "length (layers ls) = unat (app_layer_count (info s) + of_nat (stack_fudge_factor ls))"
    "surface_damage_scan (push_bit (kSurfaceDamage env) 1) False (layers ls)"
  using assms by (simp_all add: CanCompareFrameROI_def Let_def split: if_splits)

lemma fast_path_comparable:
  "fast_path_taken env ls s \<Longrightarrow> fst (CanCompareFrameROI env ls s)"
  by (simp add: fast_path_taken_def CanSkipDisplayPrepare_def case_prod_beta Let_def
      split: if_splits)

lemma layer_count_mod:
  "unat (n + of_nat k :: u32) = (unat n + k) mod 2 ^ 32"
  by (simp add: unat_word_ariths unat_of_nat mod_add_right_eq)

text \<open>
  C1. The fast path is taken only if every submitted layer's update mask is empty or is
  the surface-damage bit alone, at least one layer has that bit, the geometry, skip and
  validate flags (of the stack and of the display) are not set, the panel supports
  partial update, and the number of submitted layers is the application layer count of
  the frame before plus \<open>stack_fudge_factor\<close> (one for the GPU target, one for the stitch
  layer and one for the Demura layer when present), a sum of 32 bits; a layer whose mask
  has any other combination of bits disables the fast path.
\<close>

theorem fast_path_only_for_surface_damage:
  "(fast_path_taken env ls s \<longrightarrow>
      (\<forall>layer \<in> set (layers ls).
          update_mask layer = 0 \<or> update_mask layer = surface_damage_only env)
      \<and> (\<exists>layer \<in> set (layers ls).
          update_mask layer \<noteq> 0 \<and> update_mask layer = surface_damage_only env)
      \<and> \<not> geometry_changed (flags ls) \<and> \<not> skip_present (flags ls)
      \<and> \<not> stack_needs_validate ls \<and> \<not> needs_validate s
      \<and> partial_update (hw_panel_info s)
      \<and> length (layers ls)
          = (unat (app_layer_count (info s)) + stack_fudge_factor ls) mod 2 ^ 32
      \<and> (unat (app_layer_count (info s)) + stack_fudge_factor ls < 2 ^ 32 \<longrightarrow>
           length (layers ls) = unat (app_layer_count (info s)) + stack_fudge_factor ls))
   \<and> ((\<exists>layer \<in> set (layers ls).
          update_mask layer \<noteq> 0 \<and> update_mask layer \<noteq> surface_damage_only env)
       \<longrightarrow> \<not> fast_path_taken env ls s)"
proof -
  have main:
    "(\<forall>layer \<in> set (layers ls).
          update_mask layer = 0 \<or> update_mask layer = surface_damage_only env)
      \<and> (\<exists>layer \<in> set (layers ls).
          update_mask layer \<noteq> 0 \<and> update_mask layer = surface_damage_only env)
      \<and> \<not> geometry_changed (flags ls) \<and> \<not> skip_present (flags ls)
      \<and> \<not> stack_needs_validate ls \<and> \<not> needs_validate s
      \<and> partial_update (hw_panel_info s)
      \<and> length (layers ls)
          = (unat (app_layer_count (info s)) + stack_fudge_factor ls) mod 2 ^ 32"
    if taken: "fast_path_taken env ls s"
  proof -
    have c: "fst (CanCompareFrameROI env ls s)"
      using taken by (rule fast_path_comparable)
    note f = CanCompareFrameROI_True [OF c]
    have n: "length (layers ls)
          = (unat (app_layer_count (info s)) + stack_fudge_factor ls) mod 2 ^ 32"
      using f(8) by (simp only: layer_count_mod)
    from surface_damage_scan_True [OF f(9)] f(1,3,4,6,7) n
    show ?thesis by (simp add: surface_damage_only_def)
  qed
  have small: "length (layers ls) = unat (app_layer_count (info s)) + stack_fudge_factor ls"
    if "fast_path_taken env ls s"
      and "unat (app_layer_count (info s)) + stack_fudge_factor ls < 2 ^ 32"
    using main [OF that(1)] that(2) by simp
  from main small show ?thesis by blast
qed

lemma sample_frame_env_fields:
  "\<not> comp_IsSafeMode sample_frame_env" "\<not> color_NeedsPartialUpdateDisable sample_frame_env"
  "kSurfaceDamage sample_frame_env = 2"
  "IsCongruent sample_frame_env a b = (a = b)"
  "comp_GenerateROI sample_frame_env i
     = i\<lparr>left_frame_roi := [sample_rect], right_frame_roi := [sample_rect]\<rparr>"
  by (simp_all add: sample_frame_env_def)

lemma sample_stack_fields:
  "\<not> stack_needs_validate sample_stack" "\<not> geometry_changed (flags sample_stack)"
  "\<not> skip_present (flags sample_stack)" "stack_fudge_factor sample_stack = 1"
  "length (layers sample_stack) = 2"
  by (simp_all add: sample_stack_def stack_fudge_factor_def)

lemma sample_layers:
  "layers sample_stack =
     [\<lparr>update_mask = 4, dirty_regions = [damage_rect], composition = kCompositionGPU\<rparr>,
      \<lparr>update_mask = 0, dirty_regions = [], composition = kCompositionGPUTarget\<rparr>]"
  by (simp add: sample_stack_def)

lemma prepared_fields:
  "\<not> needs_validate prepared_display" "partial_update (hw_panel_info prepared_display)"
  "left_roi_count (hw_panel_info prepared_display) = 1" "\<not> color_mgr prepared_display"
  "partial_update_control prepared_display" "\<not> disable_pu_one_frame prepared_display"
  "\<not> disable_pu_on_dest_scaler prepared_display"
  "app_layer_count (info prepared_display) = 1"
  "cached_left_frame_roi prepared_display = sample_rect"
  "cached_right_frame_roi prepared_display = sample_rect"
  "hw_layers (info prepared_display)
     = [\<lparr>update_mask = 0, dirty_regions = [sample_rect], composition = kCompositionSDE\<rparr>]"
  "index (info prepared_display) = [0]"
  "\<not> noise_present (info prepared_display)"
  by (simp_all add: prepared_display_def sample_display_def sample_panel_def sample_info_def)

lemma sample_scan: "surface_damage_scan 4 False (layers sample_stack)"
  by (simp add: sample_stack_def)

lemma sample_compare:
  "CanCompareFrameROI sample_frame_env sample_stack prepared_display
     = (True, prepared_display)"
  by (simp add: CanCompareFrameROI_def prepared_fields sample_frame_env_fields
      sample_stack_fields sample_scan)

lemma sample_generated:
  "left_frame_roi (comp_GenerateROI sample_frame_env i) = [sample_rect]"
  "right_frame_roi (comp_GenerateROI sample_frame_env i) = [sample_rect]"
  "hw_layers (comp_GenerateROI sample_frame_env i) = hw_layers i"
  "index (comp_GenerateROI sample_frame_env i) = index i"
  "noise_present (comp_GenerateROI sample_frame_env i) = noise_present i"
  by (simp_all add: sample_frame_env_fields)

text \<open>The sample frame takes the fast path on the display prepared before.\<close>

lemma sample_fast_path: "fast_path_taken sample_frame_env sample_stack prepared_display"
  by (simp add: fast_path_taken_def CanSkipDisplayPrepare_def sample_compare Let_def
      sample_generated prepared_fields sample_frame_env_fields(4) sample_stack_fields(4)
      sample_layers)

theorem fast_path_only_for_surface_damage_witness:
  "fast_path_taken sample_frame_env sample_stack prepared_display
   \<and> update_mask (hd (layers sample_stack)) = surface_damage_only sample_frame_env
   \<and> \<not> geometry_changed (flags sample_stack) \<and> \<not> skip_present (flags sample_stack)
   \<and> partial_update (hw_panel_info prepared_display)
   \<and> length (layers sample_stack)
       = (unat (app_layer_count (info prepared_display)) + stack_fudge_factor sample_stack)
           mod 2 ^ 32"
proof -
  note t = fast_path_only_for_surface_damage
             [of sample_frame_env sample_stack prepared_display]
  have "hd (layers sample_stack) \<in> set (layers sample_stack)"
    "update_mask (hd (layers sample_stack)) \<noteq> 0"
    by (simp_all add: sample_layers)
  with t sample_fast_path show ?thesis by blast
qed

subsection \<open>Initialisation\<close>

text \<open>
  What the two set-up methods return depends on the collaborators only, not on the
  object they are given.
\<close>

lemma SetupSPR_result:
  "fst (SetupSPR env s) =
     (if GetProperty env ENABLE_SPR \<noteq> 0
         \<and> (\<not> CreateSPRIntf_result env \<or> SPR_Init_result env \<noteq> 0)
      then kErrorResources else kErrorNone)"
  by (simp add: SetupSPR_def Let_def)

lemma SetupDemuraLayer_result:
  "fst (SetupDemuraLayer env s) =
     (if CreatePayload_BufferInfo env \<noteq> 0 \<or> fst (Demura_GetParameter env) \<noteq> 0
      then kErrorResources else kErrorNone)"
  "demura (snd (SetupDemuraLayer env s)) = demura s"
  by (simp_all add: SetupDemuraLayer_def Let_def case_prod_beta)

lemma SetDemuraIntfStatus_result:
  "demura s \<Longrightarrow> fst (SetDemuraIntfStatus env b s) =
     (if CreatePayload_bool env \<noteq> 0 then CreatePayload_bool env
      else Demura_SetParameter env b)"
  by (simp add: SetDemuraIntfStatus_def)

lemma SetupDemura_state: "fst (SetupDemura env s) = fst (SetupDemura env s')"
  by (simp add: SetupDemura_def Let_def case_prod_beta SetupDemuraLayer_result
      SetDemuraIntfStatus_result)

text \<open>The Demura status and the release of the fetch resources in a call list.\<close>

lemma demura_status_snoc [simp]:
  "demura_status_of (cs @ [Comp_SetDemuraStatusForDisplay b]) = Some b"
  "demura_status_of (cs @ [DisplayBase_NoiseInit]) = demura_status_of cs"
  "demura_status_of (cs @ [Demura_SetParameter_Active b]) = demura_status_of cs"
  by (simp_all add: demura_status_of_def)

lemma SetDemuraIntfStatus_calls:
  "demura_status_of (calls (snd (SetDemuraIntfStatus env b s))) = demura_status_of (calls s)"
  "c \<in> set (calls s) \<Longrightarrow> c \<in> set (calls (snd (SetDemuraIntfStatus env b s)))"
  by (simp_all add: SetDemuraIntfStatus_def)

lemma release_demura_calls:
  "demura_status_of (calls (release_demura s)) = Some False"
  "Comp_FreeDemuraFetchResources \<in> set (calls (release_demura s))"
proof -
  have "calls (release_demura s)
          = (calls s @ [Comp_FreeDemuraFetchResources]) @ [Comp_SetDemuraStatusForDisplay False]"
    by (simp add: release_demura_def)
  then show "demura_status_of (calls (release_demura s)) = Some False"
    by (simp only: demura_status_snoc)
  show "Comp_FreeDemuraFetchResources \<in> set (calls (release_demura s))"
    by (simp add: release_demura_def)
qed

lemma demura_failed_calls:
  "demura_status_of (calls (demura_failed env s)) = Some False"
  "Comp_FreeDemuraFetchResources \<in> set (calls (demura_failed env s))"
  by (simp_all add: demura_failed_def Let_def SetDemuraIntfStatus_calls release_demura_calls)

lemma Init_properties_result:
  "fst (Init_properties env e s) = e"
  "calls (snd (Init_properties env e s)) = calls s @ [DisplayBase_NoiseInit]"
  by (simp_all add: Init_properties_def)

text \<open>The three ways through the set-up of the panel features.\<close>

lemma Init_panel_features_spr_failure:
  assumes "fst (SetupSPR env s0) \<noteq> kErrorNone"
  shows "Init_panel_features env s =
           (kErrorResources,
            (snd (SetupSPR env (Init_rounded_corner env s)))
              \<lparr>calls := calls (snd (SetupSPR env (Init_rounded_corner env s)))
                          @ [DisplayBase_Deinit, HWInterface_Destroy]\<rparr>)"
proof -
  have "fst (SetupSPR env x) = kErrorResources" for x
    using assms by (simp add: SetupSPR_result split: if_splits)
  then show ?thesis
    by (simp add: Init_panel_features_def Let_def case_prod_beta)
qed

lemma Init_panel_features_demura_failure:
  assumes "fst (SetupSPR env s0) = kErrorNone" "fst (SetupDemura env s0) \<noteq> kErrorNone"
  shows "Init_panel_features env s =
           Init_properties env kErrorNone
             (demura_failed env
                (snd (SetupDemura env (snd (SetupSPR env (Init_rounded_corner env s))))))"
proof -
  have spr: "fst (SetupSPR env x) = kErrorNone" for x
    using assms(1) by (simp add: SetupSPR_result)
  have dem: "fst (SetupDemura env x) \<noteq> kErrorNone" for x
    using assms(2) SetupDemura_state [of env x s0] by simp
  show ?thesis
    by (simp add: Init_panel_features_def Let_def case_prod_beta spr dem)
qed

lemma Init_panel_features_spr_ok:
  assumes "fst (SetupSPR env s0) = kErrorNone"
  shows "fst (Init_panel_features env s) = kErrorNone"
    and "\<exists>pre. calls (snd (Init_panel_features env s)) = pre @ [DisplayBase_NoiseInit]"
proof -
  have spr: "fst (SetupSPR env x) = kErrorNone" for x
    using assms(1) by (simp add: SetupSPR_result)
  show "fst (Init_panel_features env s) = kErrorNone"
    by (simp add: Init_panel_features_def Let_def case_prod_beta spr Init_properties_result)
  show "\<exists>pre. calls (snd (Init_panel_features env s)) = pre @ [DisplayBase_NoiseInit]"
    by (simp add: Init_panel_features_def Let_def case_prod_beta spr Init_properties_result)
qed

lemma Init_rates_factories:
  "pf_factory (Init_rates env s) = pf_factory s" "prop_intf (Init_rates env s) = prop_intf s"
  by (simp_all add: Init_rates_def Let_def initColorSamplingState_def)

lemma Init_events_interface_factories:
  "pf_factory (Init_events_interface env s) = pf_factory s"
  "prop_intf (Init_events_interface env s) = prop_intf s"
  by (simp_all add: Init_events_interface_def Let_def)

text \<open>
  When the hardware interface is created and the base class initialises and provides
  the feature factory and the property interface, \<^verbatim>\<open>Init\<close> ends in the set-up of the
  panel features, whether or not the hardware-events interface was created.
\<close>

lemma Init_with_factories:
  assumes "HWInterface_Create_result env = kErrorNone"
    and "\<forall>t. fst (base_Init env t) = kErrorNone"
    and "\<forall>t. pf_factory (snd (base_Init env t)) \<and> prop_intf (snd (base_Init env t))"
  shows "\<exists>s'. Init env s = Init_panel_features env s'"
  using assms
  by (auto simp add: Init_def Init_events_def Init_features_def Let_def case_prod_beta
      Init_rates_factories Init_events_interface_factories)

lemma fresh_fields:
  "calls fresh_display = []" "display_id fresh_display = - 1" "\<not> color_mgr fresh_display"
  "mode (hw_panel_info fresh_display) = kModeVideo"
  by (simp_all add: fresh_display_def sample_display_def sample_panel_def)

lemma sample_panel_fields:
  "mode sample_panel = kModeVideo" "max_fps sample_panel = 120"
  "is_primary_panel sample_panel" "qsync_support sample_panel"
  by (simp_all add: sample_panel_def)

lemma sample_init_env_fields:
  "HWInterface_Create_result sample_init_env = kErrorNone"
  "base_Init sample_init_env t
     = (kErrorNone, t\<lparr>pf_factory := True, prop_intf := True, hw_panel_info := sample_panel\<rparr>)"
  "\<not> TRUSTED_VM sample_init_env" "\<not> IsVideoModeEnabled sample_init_env"
  "GetProperty sample_init_env n = 0"
  "HWEventsInterface_Create_result sample_init_env = kErrorNone"
  "CreateSPRIntf_result sample_init_env" "SPR_Init_result sample_init_env = 0"
  "\<not> GetDemuraStatus sample_init_env" "IsPrimaryDisplay sample_init_env"
  "CreateDemuraIntf_result sample_init_env" "Demura_Init_result sample_init_env = 0"
  "GetDemuraFetchResources sample_init_env = [0]"
  "CreatePayload_bool sample_init_env = 0" "Demura_SetParameter sample_init_env b = 0"
  by (simp_all add: sample_init_env_def)

lemma events_failure_env_fields:
  "HWInterface_Create_result events_failure_env = kErrorNone"
  "base_Init events_failure_env t
     = (kErrorNone, t\<lparr>pf_factory := True, prop_intf := True, hw_panel_info := sample_panel\<rparr>)"
  "\<not> TRUSTED_VM events_failure_env" "\<not> IsVideoModeEnabled events_failure_env"
  "GetProperty events_failure_env n = 0"
  "HWEventsInterface_Create_result events_failure_env = kErrorResources"
  "\<not> GetDemuraStatus events_failure_env"
  by (simp_all add: events_failure_env_def sample_init_env_fields)

lemma spr_failure_env_fields:
  "HWInterface_Create_result spr_failure_env = kErrorNone"
  "base_Init spr_failure_env t
     = (kErrorNone, t\<lparr>pf_factory := True, prop_intf := True, hw_panel_info := sample_panel\<rparr>)"
  "\<not> TRUSTED_VM spr_failure_env" "\<not> IsVideoModeEnabled spr_failure_env"
  "GetProperty spr_failure_env n = (if n = ENABLE_SPR then 1 else 0)"
  "HWEventsInterface_Create_result spr_failure_env = kErrorNone"
  "CreateSPRIntf_result spr_failure_env" "SPR_Init_result spr_failure_env = - 1"
  by (simp_all add: spr_failure_env_def sample_init_env_fields)

lemma demura_failure_env_fields:
  "HWInterface_Create_result demura_failure_env = kErrorNone"
  "base_Init demura_failure_env t
     = (kErrorNone, t\<lparr>pf_factory := True, prop_intf := True, hw_panel_info := sample_panel\<rparr>)"
  "\<not> TRUSTED_VM demura_failure_env" "\<not> IsVideoModeEnabled demura_failure_env"
  "GetProperty demura_failure_env n = 0"
  "HWEventsInterface_Create_result demura_failure_env = kErrorNone"
  "GetDemuraStatus demura_failure_env" "IsPrimaryDisplay demura_failure_env"
  "GetDemuraFetchResources demura_failure_env = [0]"
  "CreateDemuraIntf_result demura_failure_env" "Demura_Init_result demura_failure_env = - 1"
  "CreatePayload_bool demura_failure_env = 0" "Demura_SetParameter demura_failure_env b = 0"
  by (simp_all add: demura_failure_env_def sample_init_env_fields)

text \<open>
  C6: what the code does when the hardware-events interface cannot be created. The
  base class and the hardware interface are released, but \<^verbatim>\<open>Init\<close> does not return there:
  when the feature factory and the property interface are there and \<^verbatim>\<open>SetupSPR\<close> succeeds,
  \<^verbatim>\<open>Init\<close> runs to its end (its last call initialises the noise layer) and returns success.
\<close>

theorem Init_continues_after_events_failure:
  assumes "HWInterface_Create_result env = kErrorNone"
    and "\<forall>t. fst (base_Init env t) = kErrorNone"
    and "\<forall>t. pf_factory (snd (base_Init env t)) \<and> prop_intf (snd (base_Init env t))"
    and "HWEventsInterface_Create_result env \<noteq> kErrorNone"
    and "fst (SetupSPR env s) = kErrorNone"
  shows "fst (Init env s) = kErrorNone
       \<and> (\<exists>pre. calls (snd (Init env s)) = pre @ [DisplayBase_NoiseInit])"
proof -
  obtain s' where s': "Init env s = Init_panel_features env s'"
    using Init_with_factories [OF assms(1-3)] by blast
  show ?thesis
    using Init_panel_features_spr_ok [OF assms(5), of s'] by (simp add: s')
qed

text \<open>
  The run of \<^verbatim>\<open>Init\<close> on the fresh display when the creation of the hardware-events
  interface returns \<^verbatim>\<open>kErrorResources\<close>: the calls made, the refresh rate set after the
  release, and the value returned.
\<close>

lemma Init_events_failure_run:
  "fst (Init events_failure_env fresh_display) = kErrorNone
   \<and> calls (snd (Init events_failure_env fresh_display)) =
       [HWInterface_Create, DisplayBase_Init,
        HWEventsInterface_Create
          [VSYNC, EXIT, SHOW_BLANK_EVENT, THERMAL_LEVEL, PINGPONG_TIMEOUT, PANEL_DEAD,
           HW_RECOVERY, HISTOGRAM, BACKLIGHT_EVENT, POWER_EVENT, MMRM, IDLE_NOTIFY,
           POWER_EVENT],
        DisplayBase_Deinit, HWInterface_Destroy,
        Comp_FreeDemuraFetchResources, Comp_SetDemuraStatusForDisplay False,
        DisplayBase_NoiseInit]
   \<and> current_refresh_rate (snd (Init events_failure_env fresh_display)) = 120"
  by (simp add: Init_def Init_hw_interface_def Init_events_def Init_events_interface_def
      Init_features_def Init_rates_def Init_panel_features_def Init_rounded_corner_def
      Init_properties_def SetupSPR_def SetupDemura_def release_demura_def
      initColorSamplingState_def Let_def events_failure_env_fields fresh_fields
      sample_panel_fields)

theorem Init_continues_after_events_failure_witness:
  "HWInterface_Create_result events_failure_env = kErrorNone
   \<and> (\<forall>t. fst (base_Init events_failure_env t) = kErrorNone)
   \<and> (\<forall>t. pf_factory (snd (base_Init events_failure_env t))
          \<and> prop_intf (snd (base_Init events_failure_env t)))
   \<and> HWEventsInterface_Create_result events_failure_env \<noteq> kErrorNone
   \<and> fst (SetupSPR events_failure_env fresh_display) = kErrorNone
   \<and> fst (Init events_failure_env fresh_display) = kErrorNone
   \<and> (\<exists>pre. calls (snd (Init events_failure_env fresh_display))
               = pre @ [DisplayBase_NoiseInit])"
proof -
  have h: "HWInterface_Create_result events_failure_env = kErrorNone"
    "\<forall>t. fst (base_Init events_failure_env t) = kErrorNone"
    "\<forall>t. pf_factory (snd (base_Init events_failure_env t))
          \<and> prop_intf (snd (base_Init events_failure_env t))"
    "HWEventsInterface_Create_result events_failure_env \<noteq> kErrorNone"
    "fst (SetupSPR events_failure_env fresh_display) = kErrorNone"
    by (simp_all add: events_failure_env_fields SetupSPR_result)
  from Init_continues_after_events_failure [OF h] h show ?thesis by blast
qed

text \<open>
  C7, as stated, fails for the SPR plugin: its failure is fatal. With SPR enabled and
  its plugin failing to initialise, \<^verbatim>\<open>Init\<close> on the fresh display releases the base
  class and the hardware interface and returns \<^verbatim>\<open>kErrorResources\<close>.
\<close>

theorem Init_spr_failure_is_fatal:
  "fst (Init spr_failure_env fresh_display) = kErrorResources
   \<and> calls (snd (Init spr_failure_env fresh_display)) =
       [HWInterface_Create, DisplayBase_Init,
        HWEventsInterface_Create
          [VSYNC, EXIT, SHOW_BLANK_EVENT, THERMAL_LEVEL, PINGPONG_TIMEOUT, PANEL_DEAD,
           HW_RECOVERY, HISTOGRAM, BACKLIGHT_EVENT, POWER_EVENT, MMRM, IDLE_NOTIFY,
           POWER_EVENT],
        CreateSPRIntf, SPR_Init, DisplayBase_Deinit, HWInterface_Destroy]"
  by (simp add: Init_def Init_hw_interface_def Init_events_def Init_events_interface_def
      Init_features_def Init_rates_def Init_panel_features_def Init_rounded_corner_def
      SetupSPR_def initColorSamplingState_def Let_def spr_failure_env_fields fresh_fields
      sample_panel_fields)

text \<open>
  C7, amended. When the hardware interface is created and the base class initialises
  and provides the feature factory and the property interface: a failure of the SPR
  set-up is fatal (\<^verbatim>\<open>Init\<close> returns \<^verbatim>\<open>kErrorResources\<close>, and its last calls release the base
  class and the hardware interface); a failure of the Demura set-up after a successful
  SPR set-up is not fatal: \<^verbatim>\<open>Init\<close> returns success, the last Demura status given to the
  composition manager for the display is "disabled", and the Demura fetch resources
  were freed.
\<close>

theorem Init_plugin_failures:
  assumes "HWInterface_Create_result env = kErrorNone"
    and "\<forall>t. fst (base_Init env t) = kErrorNone"
    and "\<forall>t. pf_factory (snd (base_Init env t)) \<and> prop_intf (snd (base_Init env t))"
  shows "(fst (SetupSPR env s) \<noteq> kErrorNone \<longrightarrow>
            fst (Init env s) = kErrorResources
            \<and> (\<exists>pre. calls (snd (Init env s))
                       = pre @ [DisplayBase_Deinit, HWInterface_Destroy]))
       \<and> (fst (SetupSPR env s) = kErrorNone \<and> fst (SetupDemura env s) \<noteq> kErrorNone \<longrightarrow>
            fst (Init env s) = kErrorNone
            \<and> demura_status_of (calls (snd (Init env s))) = Some False
            \<and> Comp_FreeDemuraFetchResources \<in> set (calls (snd (Init env s))))"
proof -
  obtain s' where s': "Init env s = Init_panel_features env s'"
    using Init_with_factories [OF assms] by blast
  have a: "fst (Init env s) = kErrorResources
            \<and> (\<exists>pre. calls (snd (Init env s))
                       = pre @ [DisplayBase_Deinit, HWInterface_Destroy])"
    if "fst (SetupSPR env s) \<noteq> kErrorNone"
    by (simp add: s' Init_panel_features_spr_failure [OF that])
  have b: "fst (Init env s) = kErrorNone
            \<and> demura_status_of (calls (snd (Init env s))) = Some False
            \<and> Comp_FreeDemuraFetchResources \<in> set (calls (snd (Init env s)))"
    if "fst (SetupSPR env s) = kErrorNone" "fst (SetupDemura env s) \<noteq> kErrorNone"
    by (simp add: s' Init_panel_features_demura_failure [OF that] Init_properties_result
        demura_failed_calls)
  from a b show ?thesis by blast
qed

text \<open>
  The theorem on the fresh display with the SPR plugin failing, and with the Demura
  plugin failing.
\<close>

theorem Init_plugin_failures_witness:
  "HWInterface_Create_result spr_failure_env = kErrorNone
   \<and> (\<forall>t. fst (base_Init spr_failure_env t) = kErrorNone)
   \<and> (\<forall>t. pf_factory (snd (base_Init spr_failure_env t))
          \<and> prop_intf (snd (base_Init spr_failure_env t)))
   \<and> fst (SetupSPR spr_failure_env fresh_display) \<noteq> kErrorNone
   \<and> fst (Init spr_failure_env fresh_display) = kErrorResources
   \<and> HWInterface_Create_result demura_failure_env = kErrorNone
   \<and> (\<forall>t. fst (base_Init demura_failure_env t) = kErrorNone)
   \<and> (\<forall>t. pf_factory (snd (base_Init demura_failure_env t))
          \<and> prop_intf (snd (base_Init demura_failure_env t)))
   \<and> fst (SetupSPR demura_failure_env fresh_display) = kErrorNone
   \<and> fst (SetupDemura demura_failure_env fresh_display) \<noteq> kErrorNone
   \<and> fst (Init demura_failure_env fresh_display) = kErrorNone
   \<and> demura_status_of (calls (snd (Init demura_failure_env fresh_display))) = Some False
   \<and> Comp_FreeDemuraFetchResources \<in> set (calls (snd (Init demura_failure_env fresh_display)))"
proof -
  have hs: "HWInterface_Create_result spr_failure_env = kErrorNone"
    "\<forall>t. fst (base_Init spr_failure_env t) = kErrorNone"
    "\<forall>t. pf_factory (snd (base_Init spr_failure_env t))
          \<and> prop_intf (snd (base_Init spr_failure_env t))"
    by (simp_all add: spr_failure_env_fields)
  have fs: "fst (SetupSPR spr_failure_env fresh_display) \<noteq> kErrorNone"
    by (simp add: SetupSPR_result spr_failure_env_fields)
  have hd: "HWInterface_Create_result demura_failure_env = kErrorNone"
    "\<forall>t. fst (base_Init demura_failure_env t) = kErrorNone"
    "\<forall>t. pf_factory (snd (base_Init demura_failure_env t))
          \<and> prop_intf (snd (base_Init demura_failure_env t))"
    by (simp_all add: demura_failure_env_fields)
  have fd: "fst (SetupSPR demura_failure_env fresh_display) = kErrorNone"
    "fst (SetupDemura demura_failure_env fresh_display) \<noteq> kErrorNone"
    by (simp_all add: SetupSPR_result SetupDemura_def Let_def demura_failure_env_fields)
  from Init_plugin_failures [OF hs, of fresh_display]
    Init_plugin_failures [OF hd, of fresh_display] hs fs hd fd
  show ?thesis by blast
qed

end
